theory Spec2Isabelle
  imports Main "HOL-Library.Multiset"
begin

section \<open>Values shared by the three modules\<close>

text \<open>
  A WebSocket object is an opaque handle; \<open>in\<close> and \<open>remove\<close> on the list of connections
  compare handles by identity, which is equality of the handle here.
\<close>

type_synonym websocket = nat

text \<open>
  JSON values, as \<open>json.loads\<close> produces them and \<open>json.dumps\<close> / \<open>send_json\<close> consume
  them. A dict is an association list with the first binding of a key the one in force.
\<close>

datatype json =
    JNull
  | JBool bool
  | JInt int
  | JString string
  | JArray "json list"
  | JObject "(string \<times> json) list"

text \<open>The exceptions the code raises, catches or lets through.\<close>

datatype exn =
    KeyError string
  | TypeError string
  | AttributeError string
  | ValueError string
  | JSONDecodeError string
  | ValidationError string
  | ImportError string
  | WebSocketDisconnect
  | RuntimeError string
  | StoreError string
  | HTTPException nat string

text \<open>
  One attempt to push a message to a client: the connection written to, the JSON value
  whose text is put on the wire, and whether the send returned (True) or raised (False).
\<close>

datatype frame = Frame (target: websocket) (message: json) (delivered: bool)

section \<open>websocket_manager.py: ConnectionManager\<close>

record ConnectionManager =
  active_connections :: "websocket list"
  connection_count :: int

definition init_manager :: ConnectionManager where
  "init_manager = \<lparr>active_connections = [], connection_count = 0\<rparr>"

text \<open>
  \<open>connect\<close>: \<open>await websocket.accept()\<close> is the handshake; when it raises, the exception
  leaves \<open>connect\<close> before the registry is touched. Otherwise the handle is appended and
  the count incremented, with no membership test. \<open>register\<close> is the part after the
  \<open>await\<close>, which runs without suspension.
\<close>

definition register :: "websocket \<Rightarrow> ConnectionManager \<Rightarrow> ConnectionManager" where
  "register websocket m =
     m\<lparr>active_connections := active_connections m @ [websocket],
       connection_count := connection_count m + 1\<rparr>"

definition connect :: "exn + unit \<Rightarrow> websocket \<Rightarrow> ConnectionManager \<Rightarrow> exn + ConnectionManager" where
  "connect accept websocket m =
     (case accept of
        Inl e \<Rightarrow> Inl e
      | Inr _ \<Rightarrow> Inr (register websocket m))"

text \<open>
  \<open>disconnect\<close>: guarded by \<open>websocket in self.active_connections\<close>; \<open>list.remove\<close> deletes
  the first equal entry.
\<close>

definition disconnect :: "websocket \<Rightarrow> ConnectionManager \<Rightarrow> ConnectionManager" where
  "disconnect websocket m =
     (if websocket \<in> set (active_connections m)
      then m\<lparr>active_connections := remove1 websocket (active_connections m),
             connection_count := connection_count m - 1\<rparr>
      else m)"

text \<open>
  \<open>send_json_personal\<close>: one \<open>send_json\<close> in a \<open>try\<close>; \<open>raised\<close> says whether it raised.
  Any exception is logged and answered by \<open>disconnect\<close>; nothing is re-raised.
\<close>

definition send_json_personal ::
  "bool \<Rightarrow> json \<Rightarrow> websocket \<Rightarrow> ConnectionManager \<Rightarrow> ConnectionManager \<times> frame list" where
  "send_json_personal raised data websocket m =
     (if raised then (disconnect websocket m, [Frame websocket data False])
      else (m, [Frame websocket data True]))"

text \<open>
  The outcome of the successive \<open>send_text\<close> calls of one broadcast is a list of flags,
  one per call in order (True: the call raised); calls beyond the list return normally.
\<close>

fun raised_now :: "bool list \<Rightarrow> bool" where
  "raised_now [] = False"
| "raised_now (r # rs) = r"

text \<open>
  The first loop of \<open>broadcast_json\<close> when nothing else touches the registry while it
  runs: every connection of the list is sent to in order; the ones whose send raised are
  collected in \<open>disconnected\<close>.
\<close>

fun send_all :: "bool list \<Rightarrow> json \<Rightarrow> websocket list \<Rightarrow> websocket list \<times> frame list" where
  "send_all outs data [] = ([], [])"
| "send_all outs data (connection # rest) =
     (let (disconnected, log) = send_all (tl outs) data rest
      in if raised_now outs
         then (connection # disconnected, Frame connection data False # log)
         else (disconnected, Frame connection data True # log))"

text \<open>The second loop: \<open>for connection in disconnected: self.disconnect(connection)\<close>.\<close>

fun disconnect_all :: "websocket list \<Rightarrow> ConnectionManager \<Rightarrow> ConnectionManager" where
  "disconnect_all [] m = m"
| "disconnect_all (connection # rest) m = disconnect_all rest (disconnect connection m)"

definition broadcast_json ::
  "bool list \<Rightarrow> json \<Rightarrow> ConnectionManager \<Rightarrow> ConnectionManager \<times> frame list" where
  "broadcast_json outs data m =
     (if active_connections m = [] then (m, [])
      else (let (disconnected, log) = send_all outs data (active_connections m)
            in (disconnect_all disconnected m, log)))"

text \<open>The connections whose send raised, read off the attempts of a broadcast.\<close>

definition failed :: "frame list \<Rightarrow> websocket list" where
  "failed sent = map target (filter (\<lambda>f. \<not> delivered f) sent)"

subsection \<open>The handshake\<close>

text \<open>
  \<open>await websocket.accept()\<close> is the handshake of the WebSocket library. A WebSocket object
  goes through it once: called on an object whose handshake has completed, \<open>accept\<close> raises
  before anything is sent. Next to the manager, the server's state therefore keeps the
  handles whose \<open>accept\<close> has returned. \<open>outcome\<close> is what the client lets a first handshake
  do: it returns or it raises.
\<close>

type_synonym server = "websocket list \<times> ConnectionManager"

definition start :: server where
  "start = ([], init_manager)"

definition handshake :: "websocket list \<Rightarrow> exn + unit \<Rightarrow> websocket \<Rightarrow> exn + unit" where
  "handshake accepted outcome websocket =
     (if websocket \<in> set accepted
      then Inl (RuntimeError ''Expected ASGI message websocket.send or websocket.close'')
      else outcome)"

text \<open>
  A call of \<open>connect\<close> on the server: the handshake decides whether \<open>connect\<close> reaches its
  append; the handle is recorded once \<open>accept\<close> has returned.
\<close>

definition connect_call :: "exn + unit \<Rightarrow> websocket \<Rightarrow> server \<Rightarrow> server" where
  "connect_call outcome websocket s =
     (case connect (handshake (fst s) outcome websocket) websocket (snd s) of
        Inl e \<Rightarrow> s
      | Inr m' \<Rightarrow> (websocket # fst s, m'))"

subsection \<open>The send loop with other tasks running at its awaits\<close>

text \<open>
  \<open>for connection in self.active_connections\<close> iterates the list object itself by index:
  each round reads \<open>len\<close> and the entry at the index anew. \<open>await connection.send_text\<close>
  is a suspension point, where other tasks may run: the endpoint of a new client, whose
  handshake returns and whose \<open>connect\<close> appends to the same list (\<open>Register\<close>), or the
  endpoint of a client that has gone, which calls \<open>disconnect\<close> (\<open>Unregister\<close>). \<open>intr\<close> lists,
  await by await, what runs during that await; awaits beyond the list are undisturbed.
\<close>

datatype reg_op = Register websocket | Unregister websocket

fun apply_reg_op :: "reg_op \<Rightarrow> server \<Rightarrow> server" where
  "apply_reg_op (Register websocket) s = connect_call (Inr ()) websocket s"
| "apply_reg_op (Unregister websocket) s = (fst s, disconnect websocket (snd s))"

fun run_reg_ops :: "reg_op list \<Rightarrow> server \<Rightarrow> server" where
  "run_reg_ops [] s = s"
| "run_reg_ops (x # xs) s = run_reg_ops xs (apply_reg_op x s)"

fun during :: "reg_op list list \<Rightarrow> reg_op list" where
  "during [] = []"
| "during (ops # rest) = ops"

function send_loop ::
  "bool list \<Rightarrow> reg_op list list \<Rightarrow> json \<Rightarrow> nat \<Rightarrow> server \<Rightarrow>
   server \<times> websocket list \<times> frame list" where
  "send_loop outs intr data i s =
     (if i < length (active_connections (snd s))
      then (let connection = active_connections (snd s) ! i;
                (s', disconnected, log) =
                   send_loop (tl outs) (tl intr) data (Suc i) (run_reg_ops (during intr) s)
            in if raised_now outs
               then (s', connection # disconnected, Frame connection data False # log)
               else (s', disconnected, Frame connection data True # log))
      else (s, [], []))"
  by pat_completeness auto
termination
proof (relation "measure (\<lambda>(outs, intr, data, i, s).
          sum_list (map length intr) + (length (active_connections (snd s)) - i))")
  show "wf (measure (\<lambda>(outs, intr, data, i, s).
          sum_list (map length intr) + (length (active_connections (snd s)) - i)))"
    by simp
next
  fix outs :: "bool list" and intr :: "reg_op list list" and data :: json
    and i :: nat and s :: server
  assume lt: "i < length (active_connections (snd s))"
  have step: "length (active_connections (snd (apply_reg_op x n)))
                \<le> Suc (length (active_connections (snd n)))" for x n
    by (cases x)
       (auto simp add: connect_call_def connect_def register_def disconnect_def length_remove1
          split: sum.splits)
  have grow: "length (active_connections (snd (run_reg_ops xs n)))
                \<le> length (active_connections (snd n)) + length xs" for xs n
  proof (induction xs arbitrary: n)
    case Nil
    show ?case by simp
  next
    case (Cons y ys)
    have "length (active_connections (snd (run_reg_ops ys (apply_reg_op y n))))
            \<le> length (active_connections (snd (apply_reg_op y n))) + length ys"
      by (rule Cons.IH)
    also have "\<dots> \<le> Suc (length (active_connections (snd n))) + length ys"
      using step [of y n] by simp
    finally show ?case by simp
  qed
  have split: "sum_list (map length intr) = length (during intr) + sum_list (map length (tl intr))"
    by (cases intr) simp_all
  show "((tl outs, tl intr, data, Suc i, run_reg_ops (during intr) s), (outs, intr, data, i, s))
          \<in> measure (\<lambda>(outs, intr, data, i, s).
                sum_list (map length intr) + (length (active_connections (snd s)) - i))"
    using lt grow [of "during intr" s] split by simp
qed

declare send_loop.simps [simp del]

definition broadcast_json_interleaved ::
  "bool list \<Rightarrow> reg_op list list \<Rightarrow> json \<Rightarrow> server \<Rightarrow> server \<times> frame list" where
  "broadcast_json_interleaved outs intr data s =
     (if active_connections (snd s) = [] then (s, [])
      else (let (s', disconnected, log) = send_loop outs intr data 0 s
            in ((fst s', disconnect_all disconnected (snd s')), log)))"

subsection \<open>Sequences of calls on the manager\<close>

datatype manager_op =
    Connect "exn + unit" websocket
  | Disconnect websocket
  | SendJsonPersonal bool json websocket
  | BroadcastJson "bool list" json

text \<open>A \<open>connect\<close> whose handshake raises leaves the manager as it was.\<close>

fun step_op :: "manager_op \<Rightarrow> ConnectionManager \<Rightarrow> ConnectionManager" where
  "step_op (Connect accept websocket) m =
     (case connect accept websocket m of Inl e \<Rightarrow> m | Inr m' \<Rightarrow> m')"
| "step_op (Disconnect websocket) m = disconnect websocket m"
| "step_op (SendJsonPersonal raised data websocket) m =
     fst (send_json_personal raised data websocket m)"
| "step_op (BroadcastJson outs data) m = fst (broadcast_json outs data m)"

fun run_ops :: "manager_op list \<Rightarrow> ConnectionManager \<Rightarrow> ConnectionManager" where
  "run_ops [] m = m"
| "run_ops (x # xs) m = run_ops xs (step_op x m)"

text \<open>
  What happens on the server, one event after the other: a call on the manager, with the
  handshake deciding a \<open>connect\<close> (the outcome a \<open>Connect\<close> carries is the client's part), or
  a broadcast disturbed at its awaits.
\<close>

datatype event = Call manager_op | Disturbed "bool list" "reg_op list list" json

fun handle_event :: "event \<Rightarrow> server \<Rightarrow> server" where
  "handle_event (Call (Connect outcome websocket)) s = connect_call outcome websocket s"
| "handle_event (Call (Disconnect websocket)) s =
     (fst s, step_op (Disconnect websocket) (snd s))"
| "handle_event (Call (SendJsonPersonal raised data websocket)) s =
     (fst s, step_op (SendJsonPersonal raised data websocket) (snd s))"
| "handle_event (Call (BroadcastJson outs data)) s =
     (fst s, step_op (BroadcastJson outs data) (snd s))"
| "handle_event (Disturbed outs intr data) s = fst (broadcast_json_interleaved outs intr data s)"

fun serve :: "event list \<Rightarrow> server \<Rightarrow> server" where
  "serve [] s = s"
| "serve (x # xs) s = serve xs (handle_event x s)"

text \<open>
  What holds in every state the server reaches: the handles in the list are distinct, and
  each of them has been through the handshake.
\<close>

definition sound :: "server \<Rightarrow> bool" where
  "sound s =
     (distinct (active_connections (snd s))
      \<and> set (active_connections (snd s)) \<subseteq> set (fst s))"


section \<open>models.py\<close>

datatype OrderStatus = PENDING | SHIPPED | DELIVERED

record OrderCreate =
  customer_name :: string
  product_name :: string
  status :: OrderStatus

record OrderUpdate =
  customer_name :: "string option"
  product_name :: "string option"
  status :: "OrderStatus option"

text \<open>
  The names bound at module level once \<open>models.py\<close> has run: its four imports and its six
  classes, the last of them spelled \<open>DatabaseChangE\<close>.
\<close>

definition models_namespace :: "string list" where
  "models_namespace =
     [''BaseModel'', ''Optional'', ''datetime'', ''Enum'',
      ''OrderStatus'', ''OrderBase'', ''OrderCreate'', ''OrderUpdate'', ''Order'',
      ''DatabaseChangE'']"

text \<open>
  \<open>from module import a, b, ...\<close> looks the names up in the module's namespace in order
  and raises ImportError at the first one that is not bound there.
\<close>

fun import_from :: "string \<Rightarrow> string list \<Rightarrow> string list \<Rightarrow> exn + unit" where
  "import_from module namespace [] = Inr ()"
| "import_from module namespace (name # names) =
     (if name \<in> set namespace then import_from module namespace names
      else Inl (ImportError (''cannot import name '' @ name @ '' from '' @ module)))"

section \<open>database.py\<close>

text \<open>Line 7: \<open>from models import Order, OrderCreate, OrderUpdate, DatabaseChange\<close>.\<close>

definition database_imports :: "string list" where
  "database_imports = [''Order'', ''OrderCreate'', ''OrderUpdate'', ''DatabaseChange'']"

text \<open>
  Running the module body of \<open>database.py\<close>: the imports of the standard library and of
  asyncpg come first and are taken to succeed; then line 7; then \<open>websocket_manager\<close> and
  the definitions, which bind \<open>Database\<close> and \<open>get_database\<close>.
\<close>

definition import_database :: "exn + string list" where
  "import_database =
     (case import_from ''models'' models_namespace database_imports of
        Inl e \<Rightarrow> Inl e
      | Inr _ \<Rightarrow> Inr (database_imports @ [''manager'', ''Database'', ''db'', ''get_database'']))"

subsection \<open>Database.initialize\<close>

type_synonym pool = nat
type_synonym listener = nat

record Database =
  database_url :: string
  pool :: "pool option"
  listener_connection :: "listener option"

definition new_Database :: "string \<Rightarrow> Database" where
  "new_Database url = \<lparr>database_url = url, pool = None, listener_connection = None\<rparr>"

text \<open>The three calls into asyncpg that startup makes; each returns or raises.\<close>

record asyncpg =
  create_pool :: "string \<Rightarrow> exn + pool"
  connect_store :: "string \<Rightarrow> exn + listener"
  add_listener :: "listener \<Rightarrow> string \<Rightarrow> exn + unit"

text \<open>Both handlers log the exception and end in a bare \<open>raise\<close>: the same exception goes on.\<close>

definition setup_notification_listener :: "asyncpg \<Rightarrow> Database \<Rightarrow> exn + Database" where
  "setup_notification_listener pg self =
     (case connect_store pg (database_url self) of
        Inl e \<Rightarrow> Inl e
      | Inr c \<Rightarrow>
          (case add_listener pg c ''order_changes'' of
             Inl e \<Rightarrow> Inl e
           | Inr _ \<Rightarrow> Inr (self\<lparr>listener_connection := Some c\<rparr>)))"

definition initialize :: "asyncpg \<Rightarrow> Database \<Rightarrow> exn + Database" where
  "initialize pg self =
     (case create_pool pg (database_url self) of
        Inl e \<Rightarrow> Inl e
      | Inr p \<Rightarrow>
          (case setup_notification_listener pg (self\<lparr>pool := Some p\<rparr>) of
             Inl e \<Rightarrow> Inl e
           | Inr self' \<Rightarrow> Inr self'))"

subsection \<open>Database.handle_notification\<close>

text \<open>\<open>change_data['operation']\<close>: a dict looks the key up; nothing else takes a string index.\<close>

fun subscript :: "json \<Rightarrow> string \<Rightarrow> exn + json" where
  "subscript (JObject kvs) key =
     (case map_of kvs key of None \<Rightarrow> Inl (KeyError key) | Some v \<Rightarrow> Inr v)"
| "subscript (JArray xs) key = Inl (TypeError ''list indices must be integers or slices, not str'')"
| "subscript (JString s) key = Inl (TypeError ''string indices must be integers, not str'')"
| "subscript (JInt n) key = Inl (TypeError ''int object is not subscriptable'')"
| "subscript (JBool b) key = Inl (TypeError ''bool object is not subscriptable'')"
| "subscript JNull key = Inl (TypeError ''NoneType object is not subscriptable'')"

datatype log_record = LogInfo string json | LogError string exn

definition database_change :: "json \<Rightarrow> json" where
  "database_change change_data =
     JObject [(''type'', JString ''database_change''), (''data'', change_data)]"

text \<open>
  The body of the \<open>try\<close>. \<open>loads\<close> is \<open>json.loads\<close>: it returns the decoded value or
  raises. \<open>outs\<close> are the outcomes of the sends of the broadcast.
\<close>

definition notification_body ::
  "(string \<Rightarrow> exn + json) \<Rightarrow> bool list \<Rightarrow> string \<Rightarrow> ConnectionManager \<Rightarrow>
   exn + (ConnectionManager \<times> frame list \<times> log_record list)" where
  "notification_body loads outs payload m =
     (case loads payload of
        Inl e \<Rightarrow> Inl e
      | Inr change_data \<Rightarrow>
          (case subscript change_data ''operation'' of
             Inl e \<Rightarrow> Inl e
           | Inr operation \<Rightarrow>
               (let (m', log) = broadcast_json outs (database_change change_data) m
                in Inr (m', log, [LogInfo ''Database change detected'' operation]))))"

text \<open>\<open>except Exception as e\<close>: the exception is logged and the handler returns.\<close>

definition handle_notification ::
  "(string \<Rightarrow> exn + json) \<Rightarrow> bool list \<Rightarrow> string \<Rightarrow> ConnectionManager \<Rightarrow>
   exn + (ConnectionManager \<times> frame list \<times> log_record list)" where
  "handle_notification loads outs payload m =
     (case notification_body loads outs payload m of
        Inl e \<Rightarrow> Inr (m, [], [LogError ''Error processing notification'' e])
      | Inr r \<Rightarrow> Inr r)"

text \<open>
  The listener calls the handler once per notification, in order; an exception that left
  the handler would end the run.
\<close>

fun process_notifications ::
  "(string \<Rightarrow> exn + json) \<Rightarrow> (string \<times> bool list) list \<Rightarrow> ConnectionManager \<Rightarrow>
   exn + (ConnectionManager \<times> frame list \<times> log_record list)" where
  "process_notifications loads [] m = Inr (m, [], [])"
| "process_notifications loads ((payload, outs) # rest) m =
     (case handle_notification loads outs payload m of
        Inl e \<Rightarrow> Inl e
      | Inr (m', sent, logged) \<Rightarrow>
          (case process_notifications loads rest m' of
             Inl e \<Rightarrow> Inl e
           | Inr (m'', sent', logged') \<Rightarrow> Inr (m'', sent @ sent', logged @ logged')))"

text \<open>
  A payload the handler cannot decode: \<open>json.loads\<close> raises on it, or the decoded value has
  no \<open>'operation'\<close> to subscript.
\<close>

definition malformed :: "(string \<Rightarrow> exn + json) \<Rightarrow> string \<Rightarrow> bool" where
  "malformed loads payload =
     (case loads payload of
        Inl e \<Rightarrow> True
      | Inr change_data \<Rightarrow>
          (case subscript change_data ''operation'' of Inl e \<Rightarrow> True | Inr v \<Rightarrow> False))"

text \<open>
  \<open>json.loads\<close> on three payload texts, for running the handler on concrete input: an
  UPDATE notification, an empty object, and text that is not JSON.
\<close>

definition update_text :: string where
  "update_text =
     [CHR 0x7B, CHR 0x22] @ ''operation'' @ [CHR 0x22] @ '': '' @ [CHR 0x22] @ ''UPDATE''
       @ [CHR 0x22, CHR 0x7D]"

definition sample_loads :: "string \<Rightarrow> exn + json" where
  "sample_loads s =
     (if s = update_text then Inr (JObject [(''operation'', JString ''UPDATE'')])
      else if s = [CHR 0x7B, CHR 0x7D] then Inr (JObject [])
      else Inl (JSONDecodeError ''Expecting value''))"

subsection \<open>Queries\<close>

text \<open>
  A row as \<open>dict(row)\<close> gives it: column names with their values. A value is one that
  \<open>json.dumps\<close> accepts or a datetime object, which the store returns for a timestamp
  column such as \<open>updated_at\<close> and which \<open>json.dumps\<close> refuses. A query is its text (with
  the layout whitespace of the source reduced to single blanks) and its arguments.
  \<open>order_id\<close> is whatever the caller passes: the REST handlers an integer, the WebSocket
  handler the value under \<open>"id"\<close> of the client's message.
\<close>

datatype pyvalue = Plain json | Datetime string

type_synonym row = "(string \<times> pyvalue) list"

datatype param = PText string | PStatus OrderStatus | PId json

type_synonym query = "string \<times> param list"

text \<open>
  The store behind the pool: \<open>fetchrow\<close> and \<open>fetch\<close> run a query against the store's
  state, return a row (or none) or raise, and leave the store's new state. The validators
  are the pydantic constructors \<open>OrderCreate\<close> and \<open>OrderUpdate\<close> applied to the request dictionary.
\<close>

record 'st world =
  fetchrow :: "query \<Rightarrow> 'st \<Rightarrow> (exn + row option) \<times> 'st"
  fetch :: "query \<Rightarrow> 'st \<Rightarrow> (exn + row list) \<times> 'st"
  validate_create :: "json \<Rightarrow> exn + OrderCreate"
  validate_update :: "json \<Rightarrow> exn + OrderUpdate"

fun digit_char :: "nat \<Rightarrow> char" where
  "digit_char n = ''0123456789'' ! n"

fun str_of_nat :: "nat \<Rightarrow> string" where
  "str_of_nat n =
     (if n < 10 then [digit_char n] else str_of_nat (n div 10) @ [digit_char (n mod 10)])"

fun join :: "string \<Rightarrow> string list \<Rightarrow> string" where
  "join sep [] = []"
| "join sep [x] = x"
| "join sep (x # y # ys) = x @ sep @ join sep (y # ys)"

definition returning :: string where
  "returning = '' RETURNING id, customer_name, product_name, status, updated_at''"

text \<open>\<open>dict(row) if row else None\<close>: no row, or a row without columns, gives None.\<close>

fun dict_if_row :: "row option \<Rightarrow> row option" where
  "dict_if_row None = None"
| "dict_if_row (Some r) = (if r = [] then None else Some r)"

text \<open>
  Each database method returns its result or the exception, the store's state afterwards,
  and the queries it issued.
\<close>

definition get_all_orders :: "'st world \<Rightarrow> 'st \<Rightarrow> (exn + row list) \<times> 'st \<times> query list" where
  "get_all_orders w st =
     (let query = (''SELECT id, customer_name, product_name, status, updated_at FROM orders ORDER BY updated_at DESC'', []);
          (rows, st') = fetch w query st
      in (rows, st', [query]))"

definition create_order :: "'st world \<Rightarrow> OrderCreate \<Rightarrow> 'st \<Rightarrow> (exn + row) \<times> 'st \<times> query list" where
  "create_order w order st =
     (let query = (''INSERT INTO orders (customer_name, product_name, status) VALUES ($1, $2, $3)'' @ returning,
                   [PText (OrderCreate.customer_name order),
                    PText (OrderCreate.product_name order),
                    PStatus (OrderCreate.status order)]);
          (r, st') = fetchrow w query st
      in ((case r of
             Inl e \<Rightarrow> Inl e
           | Inr None \<Rightarrow> Inl (TypeError ''NoneType object is not iterable'')
           | Inr (Some rw) \<Rightarrow> Inr rw), st', [query]))"

text \<open>
  \<open>update_order\<close>: the three \<open>if ... is not None\<close> blocks in order, each extending
  \<open>update_fields\<close> and \<open>values\<close> and advancing \<open>param_count\<close>; then the early return when no
  field was given; then the query.
\<close>

definition add_field ::
  "string \<Rightarrow> param option \<Rightarrow> string list \<times> param list \<times> nat \<Rightarrow> string list \<times> param list \<times> nat" where
  "add_field column v acc =
     (case acc of (update_fields, values, param_count) \<Rightarrow>
        (case v of
           None \<Rightarrow> (update_fields, values, param_count)
         | Some x \<Rightarrow>
             (update_fields @ [column @ '' = $'' @ str_of_nat param_count],
              values @ [x],
              param_count + 1)))"

definition update_order ::
  "'st world \<Rightarrow> json \<Rightarrow> OrderUpdate \<Rightarrow> 'st \<Rightarrow> (exn + row option) \<times> 'st \<times> query list" where
  "update_order w order_id order_update st =
     (let acc0 = ([], [], 1);
          acc1 = add_field ''customer_name'' (map_option PText (OrderUpdate.customer_name order_update)) acc0;
          acc2 = add_field ''product_name'' (map_option PText (OrderUpdate.product_name order_update)) acc1;
          acc3 = add_field ''status'' (map_option PStatus (OrderUpdate.status order_update)) acc2
      in (case acc3 of (update_fields, values, param_count) \<Rightarrow>
            if update_fields = [] then (Inr None, st, [])
            else (let query = (''UPDATE orders SET '' @ join '', '' update_fields
                                 @ '' WHERE id = $'' @ str_of_nat param_count @ returning,
                               values @ [PId order_id]);
                      (r, st') = fetchrow w query st
                  in ((case r of Inl e \<Rightarrow> Inl e | Inr rw \<Rightarrow> Inr (dict_if_row rw)),
                      st', [query]))))"

definition delete_order ::
  "'st world \<Rightarrow> json \<Rightarrow> 'st \<Rightarrow> (exn + row option) \<times> 'st \<times> query list" where
  "delete_order w order_id st =
     (let query = (''DELETE FROM orders WHERE id = $1'' @ returning, [PId order_id]);
          (r, st') = fetchrow w query st
      in ((case r of Inl e \<Rightarrow> Inl e | Inr rw \<Rightarrow> Inr (dict_if_row rw)), st', [query]))"

definition get_order_by_id ::
  "'st world \<Rightarrow> json \<Rightarrow> 'st \<Rightarrow> (exn + row option) \<times> 'st \<times> query list" where
  "get_order_by_id w order_id st =
     (let query = (''SELECT id, customer_name, product_name, status, updated_at FROM orders WHERE id = $1'',
                   [PId order_id]);
          (r, st') = fetchrow w query st
      in ((case r of Inl e \<Rightarrow> Inl e | Inr rw \<Rightarrow> Inr (dict_if_row rw)), st', [query]))"

section \<open>main.py\<close>

text \<open>
  Running the module body of \<open>main.py\<close> up to its project imports: line 12 takes three
  names from \<open>models\<close>, line 13 imports \<open>database\<close>, whose module body runs then, and takes
  \<open>Database\<close> and \<open>get_database\<close> from it. An exception in either leaves \<open>main\<close> unimported.
\<close>

definition import_main :: "exn + unit" where
  "import_main =
     (case import_from ''models'' models_namespace [''Order'', ''OrderCreate'', ''OrderUpdate''] of
        Inl e \<Rightarrow> Inl e
      | Inr _ \<Rightarrow>
          (case import_database of
             Inl e \<Rightarrow> Inl e
           | Inr database_namespace \<Rightarrow>
               import_from ''database'' database_namespace [''Database'', ''get_database'']))"

text \<open>
  \<open>lifespan\<close> up to its \<open>yield\<close>: the value is the initialised database when the \<open>yield\<close> is
  reached, from where the server takes requests, and the exception when startup raised.
\<close>

definition lifespan_startup :: "asyncpg \<Rightarrow> string option \<Rightarrow> exn + Database" where
  "lifespan_startup pg database_url_env =
     (case database_url_env of
        None \<Rightarrow> Inl (ValueError ''DATABASE_URL environment variable is required'')
      | Some url \<Rightarrow>
          if url = [] then Inl (ValueError ''DATABASE_URL environment variable is required'')
          else initialize pg (new_Database url))"

text \<open>Starting the application: import \<open>main\<close>, then run the lifespan's startup.\<close>

definition start_application :: "asyncpg \<Rightarrow> string option \<Rightarrow> exn + Database" where
  "start_application pg database_url_env =
     (case import_main of
        Inl e \<Rightarrow> Inl e
      | Inr _ \<Rightarrow> lifespan_startup pg database_url_env)"

subsection \<open>GET /api/health\<close>

definition health_check :: "ConnectionManager \<Rightarrow> Database option \<Rightarrow> json" where
  "health_check m db =
     JObject [(''status'', JString ''healthy''),
              (''connected_clients'', JInt (connection_count m)),
              (''database'', JString (if db \<noteq> None then ''connected'' else ''disconnected''))]"

subsection \<open>PUT /api/orders/{order_id}\<close>

text \<open>
  The handler \<open>update_order\<close> of \<open>main.py\<close>, named after its route here since the database
  method has the name. An HTTPException raised in the \<open>try\<close> is re-raised as it is; any
  other exception becomes a 500.
\<close>

definition put_order ::
  "'st world \<Rightarrow> int \<Rightarrow> OrderUpdate \<Rightarrow> 'st \<Rightarrow> (exn + row) \<times> 'st \<times> query list" where
  "put_order w order_id order_update st =
     (case update_order w (JInt order_id) order_update st of (r, st', issued) \<Rightarrow>
        ((case r of
            Inl (HTTPException code detail) \<Rightarrow> Inl (HTTPException code detail)
          | Inl e \<Rightarrow> Inl (HTTPException 500 ''Failed to update order'')
          | Inr None \<Rightarrow> Inl (HTTPException 404 ''Order not found'')
          | Inr (Some updated_order) \<Rightarrow>
              if updated_order = [] then Inl (HTTPException 404 ''Order not found'')
              else Inr updated_order),
         st', issued))"

subsection \<open>The WebSocket endpoint\<close>

text \<open>\<open>str(e)\<close>, as the error messages embed it.\<close>

fun str_exn :: "exn \<Rightarrow> string" where
  "str_exn (KeyError k) = [CHR 0x27] @ k @ [CHR 0x27]"
| "str_exn (TypeError s) = s"
| "str_exn (AttributeError s) = s"
| "str_exn (ValueError s) = s"
| "str_exn (JSONDecodeError s) = s"
| "str_exn (ValidationError s) = s"
| "str_exn (ImportError s) = s"
| "str_exn WebSocketDisconnect = []"
| "str_exn (RuntimeError s) = s"
| "str_exn (StoreError s) = s"
| "str_exn (HTTPException code detail) = str_of_nat code @ '': '' @ detail"

text \<open>
  \<open>json.dumps\<close>, as \<open>send_json\<close> runs it, on the rows of the initial data: a value it cannot
  serialise raises TypeError.
\<close>

fun dumps_row :: "row \<Rightarrow> exn + (string \<times> json) list" where
  "dumps_row [] = Inr []"
| "dumps_row ((column, Datetime d) # rest) =
     Inl (TypeError ''Object of type datetime is not JSON serializable'')"
| "dumps_row ((column, Plain v) # rest) =
     (case dumps_row rest of Inl e \<Rightarrow> Inl e | Inr kvs \<Rightarrow> Inr ((column, v) # kvs))"

fun dumps_rows :: "row list \<Rightarrow> exn + (string \<times> json) list list" where
  "dumps_rows [] = Inr []"
| "dumps_rows (r # rest) =
     (case dumps_row r of
        Inl e \<Rightarrow> Inl e
      | Inr kvs \<Rightarrow> (case dumps_rows rest of Inl e \<Rightarrow> Inl e | Inr records \<Rightarrow> Inr (kvs # records)))"

definition initial_data :: "(string \<times> json) list list \<Rightarrow> json" where
  "initial_data records =
     JObject [(''type'', JString ''initial_data''), (''data'', JArray (map JObject records))]"

definition error_message :: "string \<Rightarrow> json" where
  "error_message text = JObject [(''type'', JString ''error''), (''message'', JString text)]"

text \<open>\<open>data.get(key, default)\<close> on the dict of a client message.\<close>

definition dict_get :: "(string \<times> json) list \<Rightarrow> string \<Rightarrow> json \<Rightarrow> json" where
  "dict_get kvs key dflt = (case map_of kvs key of None \<Rightarrow> dflt | Some v \<Rightarrow> v)"

text \<open>
  The bodies of the three inner \<open>try\<close> blocks: what is done for a request, ending in the
  exception when one is raised.
\<close>

definition create_request ::
  "'st world \<Rightarrow> (string \<times> json) list \<Rightarrow> 'st \<Rightarrow> (exn + unit) \<times> 'st" where
  "create_request w data st =
     (case validate_create w (dict_get data ''data'' (JObject [])) of
        Inl e \<Rightarrow> (Inl e, st)
      | Inr order \<Rightarrow>
          (case create_order w order st of (r, st', issued) \<Rightarrow>
             ((case r of Inl e \<Rightarrow> Inl e | Inr _ \<Rightarrow> Inr ()), st')))"

definition update_request ::
  "'st world \<Rightarrow> (string \<times> json) list \<Rightarrow> 'st \<Rightarrow> (exn + unit) \<times> 'st" where
  "update_request w data st =
     (let order_id = dict_get data ''id'' JNull
      in case validate_update w (dict_get data ''updates'' (JObject [])) of
           Inl e \<Rightarrow> (Inl e, st)
         | Inr order_update \<Rightarrow>
             (case update_order w order_id order_update st of (r, st', issued) \<Rightarrow>
                ((case r of Inl e \<Rightarrow> Inl e | Inr _ \<Rightarrow> Inr ()), st')))"

definition delete_request ::
  "'st world \<Rightarrow> (string \<times> json) list \<Rightarrow> 'st \<Rightarrow> (exn + unit) \<times> 'st" where
  "delete_request w data st =
     (case delete_order w (dict_get data ''id'' JNull) st of (r, st', issued) \<Rightarrow>
        ((case r of Inl e \<Rightarrow> Inl e | Inr _ \<Rightarrow> Inr ()), st'))"

text \<open>
  \<open>except Exception as e\<close> of an inner \<open>try\<close>: the error goes to the requesting connection
  through \<open>send_json_personal\<close>; \<open>raised\<close> is the outcome of that send.
\<close>

definition answer ::
  "bool \<Rightarrow> websocket \<Rightarrow> string \<Rightarrow> (exn + unit) \<times> 'st \<Rightarrow> ConnectionManager \<Rightarrow>
   (ConnectionManager \<times> 'st) \<times> frame list" where
  "answer raised websocket prefix outcome m =
     (case outcome of
        (Inl e, st') \<Rightarrow>
          (let (m', sent) = send_json_personal raised (error_message (prefix @ str_exn e)) websocket m
           in ((m', st'), sent))
      | (Inr _, st') \<Rightarrow> ((m, st'), []))"

text \<open>
  One round of the \<open>while True\<close> loop after \<open>receive_json\<close> has returned \<open>data\<close>.
  \<open>data.get("type")\<close> raises AttributeError, out of the loop, when \<open>data\<close> is not a dict.
\<close>

definition handle_message ::
  "'st world \<Rightarrow> bool \<Rightarrow> websocket \<Rightarrow> json \<Rightarrow> ConnectionManager \<times> 'st \<Rightarrow>
   exn + ((ConnectionManager \<times> 'st) \<times> frame list)" where
  "handle_message w raised websocket data s =
     (case s of (m, st) \<Rightarrow>
        (case data of
           JObject kvs \<Rightarrow>
             (let message_type = map_of kvs ''type''
              in if message_type = Some (JString ''create_order'')
                 then Inr (answer raised websocket ''Failed to create order: '' (create_request w kvs st) m)
                 else if message_type = Some (JString ''update_order'')
                 then Inr (answer raised websocket ''Failed to update order: '' (update_request w kvs st) m)
                 else if message_type = Some (JString ''delete_order'')
                 then Inr (answer raised websocket ''Failed to delete order: '' (delete_request w kvs st) m)
                 else Inr ((m, st), []))
         | _ \<Rightarrow> Inl (AttributeError ''object has no attribute get'')))"

text \<open>
  What \<open>receive_json\<close> does at one round: it returns a decoded message, or it raises
  (WebSocketDisconnect when the client is gone, another exception on undecodable text).
  Each round comes with the outcome of the send it may make.
\<close>

datatype incoming = Received json | ReceiveRaised exn

text \<open>
  The loop over the client's messages. Both outer handlers do the same: \<open>disconnect\<close>.
  When the messages run out the endpoint is waiting in \<open>receive_json\<close>.
\<close>

fun receive_loop ::
  "'st world \<Rightarrow> websocket \<Rightarrow> (incoming \<times> bool) list \<Rightarrow> ConnectionManager \<times> 'st \<Rightarrow>
   (ConnectionManager \<times> 'st) \<times> frame list" where
  "receive_loop w websocket [] s = (s, [])"
| "receive_loop w websocket ((ReceiveRaised e, raised) # rest) s =
     ((disconnect websocket (fst s), snd s), [])"
| "receive_loop w websocket ((Received data, raised) # rest) s =
     (case handle_message w raised websocket data s of
        Inl e \<Rightarrow> ((disconnect websocket (fst s), snd s), [])
      | Inr (s', sent) \<Rightarrow>
          (let (s'', sent') = receive_loop w websocket rest s' in (s'', sent @ sent')))"

text \<open>
  The send on attach: \<open>manager.send_json_personal\<close> on the dict that holds the rows.
  \<open>send_json\<close> serialises inside the \<open>try\<close> of \<open>send_json_personal\<close>, so rows that do not
  serialise are answered like a failed send, with \<open>disconnect\<close>, and nothing is put on the
  wire.
\<close>

definition send_initial_data ::
  "bool \<Rightarrow> row list \<Rightarrow> websocket \<Rightarrow> ConnectionManager \<Rightarrow> ConnectionManager \<times> frame list" where
  "send_initial_data raised orders websocket m =
     (case dumps_rows orders of
        Inl e \<Rightarrow> (disconnect websocket m, [])
      | Inr records \<Rightarrow> send_json_personal raised (initial_data records) websocket m)"

text \<open>
  \<open>websocket_endpoint\<close>: \<open>connect\<close> is outside the \<open>try\<close>, so a failed handshake leaves the
  endpoint with the exception. Then the orders are read and pushed as \<open>initial_data\<close>
  (\<open>raised0\<close>: the outcome of that send), and the loop starts.
\<close>

definition websocket_endpoint ::
  "'st world \<Rightarrow> exn + unit \<Rightarrow> bool \<Rightarrow> websocket \<Rightarrow> (incoming \<times> bool) list \<Rightarrow>
   ConnectionManager \<times> 'st \<Rightarrow> exn + ((ConnectionManager \<times> 'st) \<times> frame list)" where
  "websocket_endpoint w accept raised0 websocket events s =
     (case s of (m, st) \<Rightarrow>
        (case connect accept websocket m of
           Inl e \<Rightarrow> Inl e
         | Inr m1 \<Rightarrow>
             (case get_all_orders w st of
                (Inl e, st1, issued) \<Rightarrow> Inr ((disconnect websocket m1, st1), [])
              | (Inr orders, st1, issued) \<Rightarrow>
                  (let (m2, sent) = send_initial_data raised0 orders websocket m1;
                       (s', sent') = receive_loop w websocket events (m2, st1)
                   in Inr (s', sent @ sent')))))"

subsection \<open>Validators and a store for running the handlers on concrete input\<close>

text \<open>
  The pydantic constructors on the dict of a request: a field that is absent or null is
  not set, a string is taken, a status must be one of the three values of the enum; the
  two names of a new order are required and its status is pending when absent. Anything
  else is a validation error, whose text is shortened here.
\<close>

fun optional_text :: "(string \<times> json) list \<Rightarrow> string \<Rightarrow> exn + string option" where
  "optional_text kvs key =
     (case map_of kvs key of
        None \<Rightarrow> Inr None
      | Some JNull \<Rightarrow> Inr None
      | Some (JString s) \<Rightarrow> Inr (Some s)
      | Some v \<Rightarrow> Inl (ValidationError (key @ '': Input should be a valid string'')))"

fun optional_status :: "(string \<times> json) list \<Rightarrow> exn + OrderStatus option" where
  "optional_status kvs =
     (case map_of kvs ''status'' of
        None \<Rightarrow> Inr None
      | Some JNull \<Rightarrow> Inr None
      | Some (JString s) \<Rightarrow>
          if s = ''pending'' then Inr (Some PENDING)
          else if s = ''shipped'' then Inr (Some SHIPPED)
          else if s = ''delivered'' then Inr (Some DELIVERED)
          else Inl (ValidationError ''status: Input should be pending, shipped or delivered'')
      | Some v \<Rightarrow> Inl (ValidationError ''status: Input should be pending, shipped or delivered''))"

fun pydantic_update :: "json \<Rightarrow> exn + OrderUpdate" where
  "pydantic_update (JObject kvs) =
     (case optional_text kvs ''customer_name'' of
        Inl e \<Rightarrow> Inl e
      | Inr c \<Rightarrow>
          (case optional_text kvs ''product_name'' of
             Inl e \<Rightarrow> Inl e
           | Inr p \<Rightarrow>
               (case optional_status kvs of
                  Inl e \<Rightarrow> Inl e
                | Inr s \<Rightarrow> Inr \<lparr>customer_name = c, product_name = p, status = s\<rparr>)))"
| "pydantic_update v = Inl (TypeError ''argument after ** must be a mapping'')"

fun pydantic_create :: "json \<Rightarrow> exn + OrderCreate" where
  "pydantic_create (JObject kvs) =
     (case optional_text kvs ''customer_name'' of
        Inl e \<Rightarrow> Inl e
      | Inr None \<Rightarrow> Inl (ValidationError ''customer_name: Field required'')
      | Inr (Some c) \<Rightarrow>
          (case optional_text kvs ''product_name'' of
             Inl e \<Rightarrow> Inl e
           | Inr None \<Rightarrow> Inl (ValidationError ''product_name: Field required'')
           | Inr (Some p) \<Rightarrow>
               (case optional_status kvs of
                  Inl e \<Rightarrow> Inl e
                | Inr None \<Rightarrow>
                    Inr \<lparr>OrderCreate.customer_name = c, OrderCreate.product_name = p,
                         OrderCreate.status = PENDING\<rparr>
                | Inr (Some s) \<Rightarrow>
                    Inr \<lparr>OrderCreate.customer_name = c, OrderCreate.product_name = p,
                         OrderCreate.status = s\<rparr>)))"
| "pydantic_create v = Inl (TypeError ''argument after ** must be a mapping'')"

text \<open>
  A read-only stand-in for the store, whose state is its list of rows. A query that has a
  string where the order id belongs is refused, as the driver refuses a string for an
  integer column. A query with an order id is answered with the row of that id, if there
  is one; \<open>fetch\<close> is answered with all rows; an insert is answered with no row. Nothing is
  changed.
\<close>

fun text_id :: "param \<Rightarrow> bool" where
  "text_id (PId (JString s)) = True"
| "text_id p = False"

fun order_ids :: "param list \<Rightarrow> json list" where
  "order_ids [] = []"
| "order_ids (PId v # rest) = v # order_ids rest"
| "order_ids (p # rest) = order_ids rest"

definition sample_world :: "row list world" where
  "sample_world =
     \<lparr>fetchrow = (\<lambda>q st.
         if list_ex text_id (snd q)
         then (Inl (StoreError ''invalid input for query argument''), st)
         else (case order_ids (snd q) of
                 [] \<Rightarrow> (Inr None, st)
               | v # rest \<Rightarrow> (Inr (find (\<lambda>r. map_of r ''id'' = Some (Plain v)) st), st))),
      fetch = (\<lambda>q st. (Inr st, st)),
      validate_create = pydantic_create,
      validate_update = pydantic_update\<rparr>"

definition sample_row :: row where
  "sample_row =
     [(''id'', Plain (JInt 1)), (''customer_name'', Plain (JString ''Ann'')),
      (''product_name'', Plain (JString ''Lamp'')), (''status'', Plain (JString ''pending'')),
      (''updated_at'', Datetime ''2024-01-01 00:00:00'')]"

section \<open>Properties of the registry\<close>

lemma disconnect_subset:
  "set (active_connections (disconnect c m)) \<subseteq> set (active_connections m)"
  using set_remove1_subset [of c "active_connections m"] by (auto simp add: disconnect_def)

lemma disconnect_distinct:
  "distinct (active_connections m) \<Longrightarrow> distinct (active_connections (disconnect c m))"
  by (simp add: disconnect_def)

lemma disconnect_set_distinct:
  "distinct (active_connections m) \<Longrightarrow>
   set (active_connections (disconnect c m)) = set (active_connections m) - {c}"
  by (auto simp add: disconnect_def)

lemma disconnect_all_subset:
  "set (active_connections (disconnect_all ds m)) \<subseteq> set (active_connections m)"
proof (induction ds arbitrary: m)
  case Nil
  show ?case by simp
next
  case (Cons d ds)
  have "set (active_connections (disconnect_all ds (disconnect d m)))
          \<subseteq> set (active_connections (disconnect d m))"
    by (rule Cons.IH)
  also have "\<dots> \<subseteq> set (active_connections m)"
    by (rule disconnect_subset)
  finally show ?case by simp
qed

lemma disconnect_all_distinct:
  "distinct (active_connections m) \<Longrightarrow> distinct (active_connections (disconnect_all ds m))"
  by (induction ds arbitrary: m) (simp_all add: disconnect_distinct)

lemma disconnect_all_set_distinct:
  "distinct (active_connections m) \<Longrightarrow>
   set (active_connections (disconnect_all ds m)) = set (active_connections m) - set ds"
proof (induction ds arbitrary: m)
  case Nil
  show ?case by simp
next
  case (Cons d ds)
  have "set (active_connections (disconnect_all ds (disconnect d m)))
          = set (active_connections (disconnect d m)) - set ds"
    using Cons.prems by (intro Cons.IH disconnect_distinct)
  then show ?case
    using Cons.prems by (auto simp add: disconnect_set_distinct)
qed

lemma send_all_targets: "map target (snd (send_all outs data cs)) = cs"
  by (induction cs arbitrary: outs) (simp_all add: split_beta Let_def)

lemma send_all_disconnected:
  "fst (send_all outs data cs) = failed (snd (send_all outs data cs))"
  by (induction cs arbitrary: outs) (simp_all add: split_beta Let_def failed_def)

lemma send_all_messages:
  "f \<in> set (snd (send_all outs data cs)) \<Longrightarrow> message f = data"
  by (induction cs arbitrary: outs) (auto simp add: split_beta Let_def split: if_splits)


lemma broadcast_json_targets:
  "map target (snd (broadcast_json outs data m)) = active_connections m"
  by (simp add: broadcast_json_def split_beta Let_def send_all_targets)

lemma broadcast_json_registry:
  "fst (broadcast_json outs data m)
     = disconnect_all (failed (snd (broadcast_json outs data m))) m"
  by (simp add: broadcast_json_def split_beta Let_def send_all_disconnected failed_def)




subsection \<open>The count\<close>

lemma register_count:
  "connection_count m = int (length (active_connections m)) \<Longrightarrow>
   connection_count (register c m) = int (length (active_connections (register c m)))"
  by (simp add: register_def)

lemma disconnect_count:
  "connection_count m = int (length (active_connections m)) \<Longrightarrow>
   connection_count (disconnect c m) = int (length (active_connections (disconnect c m)))"
proof (cases "c \<in> set (active_connections m)")
  case True
  assume inv: "connection_count m = int (length (active_connections m))"
  have "int (length (active_connections m) - 1) = int (length (active_connections m)) - 1"
    using True by (cases "active_connections m") simp_all
  then show ?thesis
    using True inv by (simp add: disconnect_def length_remove1)
next
  case False
  assume "connection_count m = int (length (active_connections m))"
  then show ?thesis
    using False by (simp add: disconnect_def)
qed

lemma disconnect_all_count:
  "connection_count m = int (length (active_connections m)) \<Longrightarrow>
   connection_count (disconnect_all ds m) = int (length (active_connections (disconnect_all ds m)))"
  by (induction ds arbitrary: m) (simp_all add: disconnect_count)

lemma step_op_count:
  "connection_count m = int (length (active_connections m)) \<Longrightarrow>
   connection_count (step_op x m) = int (length (active_connections (step_op x m)))"
proof (cases x)
  case (Connect accept w)
  assume "connection_count m = int (length (active_connections m))"
  then show ?thesis
    using Connect register_count [of m w] by (cases accept) (simp_all add: connect_def)
next
  case (Disconnect w)
  assume "connection_count m = int (length (active_connections m))"
  then show ?thesis
    using Disconnect by (simp add: disconnect_count)
next
  case (SendJsonPersonal r d w)
  assume "connection_count m = int (length (active_connections m))"
  then show ?thesis
    using SendJsonPersonal by (simp add: send_json_personal_def disconnect_count)
next
  case (BroadcastJson outs d)
  assume "connection_count m = int (length (active_connections m))"
  then show ?thesis
    using BroadcastJson by (simp add: broadcast_json_registry disconnect_all_count)
qed

lemma run_ops_count:
  "connection_count m = int (length (active_connections m)) \<Longrightarrow>
   connection_count (run_ops ops m) = int (length (active_connections (run_ops ops m)))"
  by (induction ops arbitrary: m) (simp_all add: step_op_count)

text \<open>
  Claim C6. After any sequence of connect, disconnect, send_json_personal and broadcast_json
  calls on a fresh manager, connection_count equals the number of entries of
  active_connections, and the health endpoint reports that number as connected_clients.
\<close>

theorem connection_count_is_length:
  "connection_count (run_ops ops init_manager)
     = int (length (active_connections (run_ops ops init_manager)))
   \<and> health_check (run_ops ops init_manager) db
       = JObject [(''status'', JString ''healthy''),
                  (''connected_clients'',
                     JInt (int (length (active_connections (run_ops ops init_manager))))),
                  (''database'', JString (if db \<noteq> None then ''connected'' else ''disconnected''))]"
proof -
  have "connection_count init_manager = int (length (active_connections init_manager))"
    by (simp add: init_manager_def)
  then have "connection_count (run_ops ops init_manager)
               = int (length (active_connections (run_ops ops init_manager)))"
    by (rule run_ops_count)
  then show ?thesis
    by (simp add: health_check_def)
qed

text \<open>With distinct handles a second \<open>disconnect\<close> of the same connection changes nothing.\<close>

lemma disconnect_twice:
  "distinct (active_connections m) \<Longrightarrow> disconnect c (disconnect c m) = disconnect c m"
proof -
  assume "distinct (active_connections m)"
  then have "c \<notin> set (active_connections (disconnect c m))"
    by (simp add: disconnect_set_distinct)
  then show ?thesis
    by (subst disconnect_def) simp
qed

text \<open>
  Claim C5. disconnect on a connection that is not in active_connections changes nothing,
  neither the list nor the count. On a connection that is in the list it removes one entry,
  that connection's first, keeps every other entry, and decrements the count by one.
\<close>

theorem disconnect_idempotent:
  "(websocket \<notin> set (active_connections m) \<longrightarrow> disconnect websocket m = m)
   \<and> (websocket \<in> set (active_connections m) \<longrightarrow>
        active_connections (disconnect websocket m) = remove1 websocket (active_connections m)
        \<and> mset (active_connections (disconnect websocket m))
            = mset (active_connections m) - {#websocket#}
        \<and> connection_count (disconnect websocket m) = connection_count m - 1)"
  by (simp add: disconnect_def)

theorem disconnect_idempotent_witness:
  "(5::nat) \<notin> set [1, 2, 3]
   \<and> disconnect 5 \<lparr>active_connections = [1, 2, 3], connection_count = 3\<rparr>
       = \<lparr>active_connections = [1, 2, 3], connection_count = 3\<rparr>
   \<and> (2::nat) \<in> set [1, 2, 3]
   \<and> active_connections (disconnect 2 \<lparr>active_connections = [1, 2, 3], connection_count = 3\<rparr>)
       = [1, 3]
   \<and> connection_count (disconnect 2 \<lparr>active_connections = [1, 2, 3], connection_count = 3\<rparr>) = 2"
  using disconnect_idempotent [of 5 "\<lparr>active_connections = [1, 2, 3], connection_count = 3\<rparr>"]
        disconnect_idempotent [of 2 "\<lparr>active_connections = [1, 2, 3], connection_count = 3\<rparr>"]
  by simp


section \<open>Properties of the server\<close>

lemma start_sound: "sound start"
  by (simp add: sound_def start_def init_manager_def)

lemma connect_call_sound: "sound s \<Longrightarrow> sound (connect_call outcome c s)"
  by (cases outcome)
     (auto simp add: sound_def connect_call_def handshake_def connect_def register_def)



lemma disconnect_sound: "sound s \<Longrightarrow> sound (fst s, disconnect c (snd s))"
  using disconnect_subset [of c "snd s"]
  by (auto simp add: sound_def disconnect_distinct)

lemma disconnect_all_sound: "sound s \<Longrightarrow> sound (fst s, disconnect_all ds (snd s))"
  using disconnect_all_subset [of ds "snd s"]
  by (auto simp add: sound_def disconnect_all_distinct)

lemma apply_reg_op_sound: "sound s \<Longrightarrow> sound (apply_reg_op x s)"
  by (cases x) (simp_all add: connect_call_sound disconnect_sound)



lemma run_reg_ops_sound: "sound s \<Longrightarrow> sound (run_reg_ops xs s)"
  by (induction xs arbitrary: s) (simp_all add: apply_reg_op_sound)



text \<open>The send loop, one round unfolded.\<close>

lemma send_loop_done:
  "\<not> i < length (active_connections (snd s)) \<Longrightarrow> send_loop outs intr data i s = (s, [], [])"
  by (subst send_loop.simps) simp

lemma send_loop_round:
  "i < length (active_connections (snd s)) \<Longrightarrow>
   send_loop outs intr data i s =
     (fst (send_loop (tl outs) (tl intr) data (Suc i) (run_reg_ops (during intr) s)),
      (if raised_now outs then [active_connections (snd s) ! i] else [])
        @ fst (snd (send_loop (tl outs) (tl intr) data (Suc i) (run_reg_ops (during intr) s))),
      Frame (active_connections (snd s) ! i) data (\<not> raised_now outs)
        # snd (snd (send_loop (tl outs) (tl intr) data (Suc i) (run_reg_ops (during intr) s))))"
  by (subst send_loop.simps) (simp add: split_beta Let_def)

lemma send_loop_sound: "sound s \<Longrightarrow> sound (fst (send_loop outs intr data i s))"
proof (induction outs intr data i s rule: send_loop.induct)
  case (1 outs intr data i s)
  show ?case
  proof (cases "i < length (active_connections (snd s))")
    case True
    have "sound (run_reg_ops (during intr) s)"
      using "1.prems" by (rule run_reg_ops_sound)
    then have "sound (fst (send_loop (tl outs) (tl intr) data (Suc i) (run_reg_ops (during intr) s)))"
      using True by (intro "1.IH") simp_all
    then show ?thesis
      using True by (simp add: send_loop_round)
  next
    case False
    then show ?thesis
      using "1.prems" by (simp add: send_loop_done)
  qed
qed





lemma broadcast_sound: "sound s \<Longrightarrow> sound (fst (broadcast_json_interleaved outs intr data s))"
proof (cases "active_connections (snd s) = []")
  case True
  assume "sound s"
  then show ?thesis
    using True by (simp add: broadcast_json_interleaved_def)
next
  case False
  assume "sound s"
  then have "sound (fst (send_loop outs intr data 0 s))"
    by (rule send_loop_sound)
  then have "sound (fst (fst (send_loop outs intr data 0 s)),
                    disconnect_all (fst (snd (send_loop outs intr data 0 s)))
                      (snd (fst (send_loop outs intr data 0 s))))"
    by (rule disconnect_all_sound)
  then show ?thesis
    using False by (simp add: broadcast_json_interleaved_def split_beta Let_def)
qed




lemma handle_event_sound: "sound s \<Longrightarrow> sound (handle_event x s)"
proof (cases x)
  case (Call y)
  assume s: "sound s"
  show ?thesis
  proof (cases y)
    case (Connect outcome w)
    then show ?thesis
      using Call s by (simp add: connect_call_sound)
  next
    case (Disconnect w)
    then show ?thesis
      using Call s by (simp add: disconnect_sound)
  next
    case (SendJsonPersonal r d w)
    then show ?thesis
      using Call s disconnect_sound [of s w] by (simp add: send_json_personal_def)
  next
    case (BroadcastJson outs d)
    then show ?thesis
      using Call s disconnect_all_sound [of s] by (simp add: broadcast_json_registry)
  qed
next
  case (Disturbed outs intr d)
  assume "sound s"
  then show ?thesis
    using Disturbed by (simp add: broadcast_sound)
qed



lemma serve_sound: "sound s \<Longrightarrow> sound (serve xs s)"
  by (induction xs arbitrary: s) (simp_all add: handle_event_sound)



text \<open>The undisturbed loop.\<close>

lemma send_loop_undisturbed:
  "send_loop outs [] data i s =
     (s, fst (send_all outs data (drop i (active_connections (snd s)))),
         snd (send_all outs data (drop i (active_connections (snd s)))))"
proof (induction "length (active_connections (snd s)) - i" arbitrary: i outs)
  case 0
  then show ?case
    by (simp add: send_loop_done)
next
  case (Suc n)
  have lt: "i < length (active_connections (snd s))"
    using Suc.hyps(2) by simp
  have rest: "send_loop (tl outs) [] data (Suc i) s =
     (s, fst (send_all (tl outs) data (drop (Suc i) (active_connections (snd s)))),
         snd (send_all (tl outs) data (drop (Suc i) (active_connections (snd s)))))"
    using Suc.hyps(2) by (intro Suc.hyps(1)) simp
  have unfold: "drop i (active_connections (snd s))
          = active_connections (snd s) ! i # drop (Suc i) (active_connections (snd s))"
    using lt by (simp add: Cons_nth_drop_Suc)
  show ?case
    using lt rest by (simp add: send_loop_round unfold split_beta Let_def)
qed

lemma broadcast_json_undisturbed:
  "broadcast_json_interleaved outs [] data s
     = ((fst s, fst (broadcast_json outs data (snd s))), snd (broadcast_json outs data (snd s)))"
  by (simp add: broadcast_json_interleaved_def broadcast_json_def send_loop_undisturbed
        split_beta Let_def)

lemma send_loop_one_register:
  "i + k < length (active_connections (snd s)) \<Longrightarrow> c \<notin> set (fst s) \<Longrightarrow>
   send_loop outs (replicate k [] @ [[Register c]]) data i s =
     ((c # fst s, register c (snd s)),
      fst (send_all outs data (drop i (active_connections (snd s)) @ [c])),
      snd (send_all outs data (drop i (active_connections (snd s)) @ [c])))"
proof (induction k arbitrary: i outs)
  case 0
  have lt: "i < length (active_connections (snd s))"
    using "0.prems" by simp
  have unfold: "drop i (active_connections (snd s))
          = active_connections (snd s) ! i # drop (Suc i) (active_connections (snd s))"
    using lt by (simp add: Cons_nth_drop_Suc)
  have joined: "connect_call (Inr ()) c s = (c # fst s, register c (snd s))"
    using "0.prems"(2) by (simp add: connect_call_def handshake_def connect_def)
  have grown: "drop (Suc i) (active_connections (register c (snd s)))
          = drop (Suc i) (active_connections (snd s)) @ [c]"
    using lt by (simp add: register_def)
  show ?case
    using lt
    by (simp add: send_loop_round joined send_loop_undisturbed grown unfold split_beta Let_def)
next
  case (Suc k)
  have lt: "i < length (active_connections (snd s))"
    using Suc.prems by simp
  have unfold: "drop i (active_connections (snd s))
          = active_connections (snd s) ! i # drop (Suc i) (active_connections (snd s))"
    using lt by (simp add: Cons_nth_drop_Suc)
  have rest: "send_loop (tl outs) (replicate k [] @ [[Register c]]) data (Suc i) s =
     ((c # fst s, register c (snd s)),
      fst (send_all (tl outs) data (drop (Suc i) (active_connections (snd s)) @ [c])),
      snd (send_all (tl outs) data (drop (Suc i) (active_connections (snd s)) @ [c])))"
    using Suc.prems by (intro Suc.IH) simp_all
  show ?case
    using lt rest by (simp add: send_loop_round unfold split_beta Let_def)
qed

text \<open>The count follows the list through a disturbed broadcast as well.\<close>

lemma run_reg_ops_count:
  "connection_count (snd s) = int (length (active_connections (snd s))) \<Longrightarrow>
   connection_count (snd (run_reg_ops xs s))
     = int (length (active_connections (snd (run_reg_ops xs s))))"
proof (induction xs arbitrary: s)
  case Nil
  then show ?case by simp
next
  case (Cons x xs)
  have "connection_count (snd (apply_reg_op x s))
          = int (length (active_connections (snd (apply_reg_op x s))))"
  proof (cases x)
    case (Register w)
    then show ?thesis
      using Cons.prems register_count [of "snd s" w]
      by (simp add: connect_call_def handshake_def connect_def)
  next
    case (Unregister w)
    then show ?thesis
      using Cons.prems by (simp add: disconnect_count)
  qed
  then show ?case
    using Cons.IH by simp
qed

lemma send_loop_count:
  "connection_count (snd s) = int (length (active_connections (snd s))) \<Longrightarrow>
   connection_count (snd (fst (send_loop outs intr data i s)))
     = int (length (active_connections (snd (fst (send_loop outs intr data i s)))))"
proof (induction outs intr data i s rule: send_loop.induct)
  case (1 outs intr data i s)
  show ?case
  proof (cases "i < length (active_connections (snd s))")
    case True
    have "connection_count (snd (run_reg_ops (during intr) s))
            = int (length (active_connections (snd (run_reg_ops (during intr) s))))"
      using "1.prems" by (rule run_reg_ops_count)
    then have "connection_count (snd (fst (send_loop (tl outs) (tl intr) data (Suc i)
                  (run_reg_ops (during intr) s))))
        = int (length (active_connections (snd (fst (send_loop (tl outs) (tl intr) data (Suc i)
                  (run_reg_ops (during intr) s))))))"
      using True by (intro "1.IH") simp_all
    then show ?thesis
      using True by (simp add: send_loop_round)
  next
    case False
    then show ?thesis
      using "1.prems" by (simp add: send_loop_done)
  qed
qed

lemma broadcast_json_interleaved_count:
  "connection_count (snd s) = int (length (active_connections (snd s))) \<Longrightarrow>
   connection_count (snd (fst (broadcast_json_interleaved outs intr data s)))
     = int (length (active_connections (snd (fst (broadcast_json_interleaved outs intr data s)))))"
  by (simp add: broadcast_json_interleaved_def split_beta Let_def
        disconnect_all_count send_loop_count)







subsection \<open>Distinct handles\<close>

lemma reached_sound: "sound (serve events start)"
  using start_sound by (rule serve_sound)






subsection \<open>The live list\<close>

text \<open>
  No copy of the list is taken: a connection appended during the await of the first send
  was not registered when the broadcast began, and the loop reaches it and writes the
  in-flight event to it.
\<close>

theorem snapshot_counterexample:
  "active_connections (snd (serve [Call (Connect (Inr ()) 4)] start)) = [4]
   \<and> snd (broadcast_json_interleaved [] [[Register 5]] (JString ''event'')
            (serve [Call (Connect (Inr ()) 4)] start))
       = [Frame 4 (JString ''event'') True, Frame 5 (JString ''event'') True]"
  by code_simp

text \<open>
  The other side of iterating the live list: a \<open>disconnect\<close> of an earlier entry during an
  await shifts the later entries down, and the loop passes over one of them.
\<close>

lemma unregister_skips_a_connection:
  "snd (broadcast_json_interleaved [] [[Unregister 4]] (JString ''event'')
          (serve [Call (Connect (Inr ()) 4), Call (Connect (Inr ()) 5), Call (Connect (Inr ()) 6)]
             start))
       = [Frame 4 (JString ''event'') True, Frame 6 (JString ''event'') True]"
  by code_simp

lemma one_frame_per_target:
  assumes d: "distinct (map target sent)"
    and f: "Frame c data True \<in> set sent"
  shows "c \<notin> set (failed sent)"
proof
  assume "c \<in> set (failed sent)"
  then obtain g where g: "g \<in> set sent" "target g = c" "\<not> delivered g"
    by (auto simp add: failed_def)
  have inj: "inj_on target (set sent)"
    using d by (simp add: distinct_map)
  have eq: "target g = target (Frame c data True)"
    using g(2) by simp
  have "g = Frame c data True"
    by (rule inj_onD [OF inj eq g(1) f])
  then show False
    using g(3) by simp
qed

text \<open>
  Claim C3, amended. In every state the server reaches: broadcast_json iterates the live
  list. When nothing runs during its awaits it behaves as the undisturbed loop, whose
  recipients are exactly the connections in the list when the broadcast begins. When a
  new connection is registered during one await of a loop that is otherwise undisturbed,
  it is appended to the list being iterated and is written the in-flight event after all
  earlier entries; if that send did not raise, the connection is registered afterwards
  and is a recipient of the next undisturbed broadcast.
\<close>

theorem broadcast_iterates_live_list:
  "broadcast_json_interleaved outs [] data (serve events start)
     = ((fst (serve events start), fst (broadcast_json outs data (snd (serve events start)))),
        snd (broadcast_json outs data (snd (serve events start))))
   \<and> map target (snd (broadcast_json outs data (snd (serve events start))))
       = active_connections (snd (serve events start))
   \<and> (k < length (active_connections (snd (serve events start)))
        \<and> c \<notin> set (fst (serve events start)) \<longrightarrow>
        map target (snd (broadcast_json_interleaved outs (replicate k [] @ [[Register c]]) data
                          (serve events start)))
          = active_connections (snd (serve events start)) @ [c]
        \<and> (Frame c data True
              \<in> set (snd (broadcast_json_interleaved outs (replicate k [] @ [[Register c]]) data
                          (serve events start))) \<longrightarrow>
             c \<in> set (active_connections (snd (fst (broadcast_json_interleaved outs
                          (replicate k [] @ [[Register c]]) data (serve events start)))))
             \<and> c \<in> set (map target (snd (broadcast_json outs' data'
                          (snd (fst (broadcast_json_interleaved outs
                             (replicate k [] @ [[Register c]]) data (serve events start)))))))))"
proof (intro conjI impI)
  let ?s = "serve events start"
  show "broadcast_json_interleaved outs [] data ?s
     = ((fst ?s, fst (broadcast_json outs data (snd ?s))), snd (broadcast_json outs data (snd ?s)))"
    by (rule broadcast_json_undisturbed)
  show "map target (snd (broadcast_json outs data (snd ?s))) = active_connections (snd ?s)"
    by (rule broadcast_json_targets)
next
  let ?s = "serve events start"
  let ?r = "broadcast_json_interleaved outs (replicate k [] @ [[Register c]]) data ?s"
  let ?all = "active_connections (snd ?s) @ [c]"
  assume kc: "k < length (active_connections (snd ?s)) \<and> c \<notin> set (fst ?s)"
  have sound: "sound ?s"
    by (rule reached_sound)
  have new: "c \<notin> set (active_connections (snd ?s))"
    using kc sound by (auto simp add: sound_def)
  have loop: "send_loop outs (replicate k [] @ [[Register c]]) data 0 ?s =
     ((c # fst ?s, register c (snd ?s)),
      fst (send_all outs data ?all), snd (send_all outs data ?all))"
    using kc send_loop_one_register [of 0 k ?s c outs data] by simp
  have nonempty: "active_connections (snd ?s) \<noteq> []"
    using kc by auto
  have r: "?r = ((c # fst ?s,
                  disconnect_all (failed (snd (send_all outs data ?all))) (register c (snd ?s))),
                 snd (send_all outs data ?all))"
    using nonempty
    by (simp add: broadcast_json_interleaved_def loop split_beta send_all_disconnected)
  show targets: "map target (snd ?r) = ?all"
    by (simp add: r send_all_targets)
  assume sent: "Frame c data True \<in> set (snd ?r)"
  have d: "distinct (active_connections (register c (snd ?s)))"
    using sound new by (simp add: sound_def register_def)
  have "distinct (map target (snd ?r))"
    using d by (simp add: targets register_def)
  then have "c \<notin> set (failed (snd ?r))"
    using sent by (rule one_frame_per_target)
  moreover have "set (active_connections (snd (fst ?r)))
      = set (active_connections (register c (snd ?s))) - set (failed (snd ?r))"
    using d by (simp add: r disconnect_all_set_distinct)
  ultimately show registered: "c \<in> set (active_connections (snd (fst ?r)))"
    by (simp add: register_def)
  then show "c \<in> set (map target (snd (broadcast_json outs' data' (snd (fst ?r)))))"
    by (simp only: broadcast_json_targets)
qed

theorem broadcast_iterates_live_list_witness:
  "(0::nat) < length (active_connections (snd (serve [Call (Connect (Inr ()) 4)] start)))
   \<and> 5 \<notin> set (fst (serve [Call (Connect (Inr ()) 4)] start))
   \<and> map target (snd (broadcast_json_interleaved [] [[Register 5]] JNull
        (serve [Call (Connect (Inr ()) 4)] start))) = [4, 5]
   \<and> Frame 5 JNull True \<in> set (snd (broadcast_json_interleaved [] [[Register 5]] JNull
        (serve [Call (Connect (Inr ()) 4)] start)))
   \<and> 5 \<in> set (active_connections (snd (fst (broadcast_json_interleaved [] [[Register 5]] JNull
        (serve [Call (Connect (Inr ()) 4)] start)))))
   \<and> 5 \<in> set (map target (snd (broadcast_json [] JNull
        (snd (fst (broadcast_json_interleaved [] [[Register 5]] JNull
           (serve [Call (Connect (Inr ()) 4)] start)))))))"
proof -
  let ?s = "serve [Call (Connect (Inr ()) 4)] start"
  let ?r = "broadcast_json_interleaved [] [[Register 5]] JNull ?s"
  have k: "(0::nat) < length (active_connections (snd ?s))"
    by code_simp
  have new: "5 \<notin> set (fst ?s)"
    by code_simp
  have frame: "Frame 5 JNull True \<in> set (snd ?r)"
    by code_simp
  have run: "active_connections (snd ?s) = [4]"
    by code_simp
  note t = broadcast_iterates_live_list [of "[]" JNull "[Call (Connect (Inr ()) 4)]" 0 5 "[]" JNull]
  have targets: "map target (snd ?r) = [4, 5]"
    using t k new run by simp
  have registered: "5 \<in> set (active_connections (snd (fst ?r)))"
    using t k new frame by simp
  have next_one: "5 \<in> set (map target (snd (broadcast_json [] JNull (snd (fst ?r)))))"
    using t k new frame by simp
  show ?thesis
    using k new targets frame registered next_one by (intro conjI)
qed

section \<open>Properties of the listener\<close>

lemma handle_notification_malformed:
  "malformed loads payload \<Longrightarrow>
   \<exists>e. handle_notification loads outs payload m
         = Inr (m, [], [LogError ''Error processing notification'' e])"
  by (auto simp add: malformed_def handle_notification_def notification_body_def
        split: sum.splits)

lemma handle_notification_wellformed:
  "loads payload = Inr change_data \<Longrightarrow> subscript change_data ''operation'' = Inr operation \<Longrightarrow>
   handle_notification loads outs payload m
     = Inr (fst (broadcast_json outs (database_change change_data) m),
            snd (broadcast_json outs (database_change change_data) m),
            [LogInfo ''Database change detected'' operation])"
  by (simp add: handle_notification_def notification_body_def split_beta Let_def)

lemma handle_notification_returns:
  "\<exists>r. handle_notification loads outs payload m = Inr r"
  by (simp add: handle_notification_def split: sum.splits)

lemma process_notifications_returns:
  "\<exists>r. process_notifications loads ns m = Inr r"
proof (induction ns arbitrary: m)
  case Nil
  show ?case by simp
next
  case (Cons n ns)
  obtain payload outs where n: "n = (payload, outs)"
    by (cases n)
  obtain m' sent logged where h: "handle_notification loads outs payload m = Inr (m', sent, logged)"
    using handle_notification_returns [of loads outs payload m] by (auto simp add: prod_eq_iff)
  obtain m'' sent' logged' where r: "process_notifications loads ns m' = Inr (m'', sent', logged')"
    using Cons.IH [of m'] by (auto simp add: prod_eq_iff)
  show ?case
    using n h r by simp
qed

text \<open>
  Claim C2. handle_notification returns for every payload, and so does a run over any
  sequence of notifications. A payload that json.loads rejects, or whose decoded value has
  no 'operation' to subscript, leaves the registry as it is, sends nothing and logs one
  error. A well-formed payload that arrives right after it is decoded and broadcast as if
  the bad one had not arrived.
\<close>

theorem malformed_payload_is_isolated:
  "(\<exists>r. handle_notification loads outs payload m = Inr r)
   \<and> (\<exists>r. process_notifications loads ns m = Inr r)
   \<and> (malformed loads bad \<longrightarrow>
        (\<exists>e. handle_notification loads outs bad m
               = Inr (m, [], [LogError ''Error processing notification'' e]))
        \<and> (\<forall>change_data operation outs'.
              loads good = Inr change_data \<and> subscript change_data ''operation'' = Inr operation \<longrightarrow>
              (\<exists>e. process_notifications loads [(bad, outs), (good, outs')] m
                     = Inr (fst (broadcast_json outs' (database_change change_data) m),
                            snd (broadcast_json outs' (database_change change_data) m),
                            [LogError ''Error processing notification'' e,
                             LogInfo ''Database change detected'' operation]))))"
proof (intro conjI impI allI)
  show "\<exists>r. handle_notification loads outs payload m = Inr r"
    by (rule handle_notification_returns)
  show "\<exists>r. process_notifications loads ns m = Inr r"
    by (rule process_notifications_returns)
next
  assume bad: "malformed loads bad"
  then show "\<exists>e. handle_notification loads outs bad m
               = Inr (m, [], [LogError ''Error processing notification'' e])"
    by (rule handle_notification_malformed)
  fix change_data operation outs'
  assume good: "loads good = Inr change_data \<and> subscript change_data ''operation'' = Inr operation"
  obtain e where e: "handle_notification loads outs bad m
               = Inr (m, [], [LogError ''Error processing notification'' e])"
    using handle_notification_malformed [OF bad] by blast
  have "process_notifications loads [(bad, outs), (good, outs')] m
                     = Inr (fst (broadcast_json outs' (database_change change_data) m),
                            snd (broadcast_json outs' (database_change change_data) m),
                            [LogError ''Error processing notification'' e,
                             LogInfo ''Database change detected'' operation])"
    using good by (simp add: e handle_notification_wellformed)
  then show "\<exists>e. process_notifications loads [(bad, outs), (good, outs')] m
                     = Inr (fst (broadcast_json outs' (database_change change_data) m),
                            snd (broadcast_json outs' (database_change change_data) m),
                            [LogError ''Error processing notification'' e,
                             LogInfo ''Database change detected'' operation])"
    by blast
qed


theorem malformed_payload_is_isolated_witness:
  "malformed sample_loads ''not json''
   \<and> malformed sample_loads [CHR 0x7B, CHR 0x7D]
   \<and> sample_loads update_text = Inr (JObject [(''operation'', JString ''UPDATE'')])
   \<and> subscript (JObject [(''operation'', JString ''UPDATE'')]) ''operation'' = Inr (JString ''UPDATE'')
   \<and> handle_notification sample_loads [] [CHR 0x7B, CHR 0x7D]
         \<lparr>active_connections = [4, 5], connection_count = 2\<rparr>
       = Inr (\<lparr>active_connections = [4, 5], connection_count = 2\<rparr>, [],
              [LogError ''Error processing notification'' (KeyError ''operation'')])
   \<and> process_notifications sample_loads [(''not json'', []), (update_text, [])]
         \<lparr>active_connections = [4, 5], connection_count = 2\<rparr>
       = Inr (\<lparr>active_connections = [4, 5], connection_count = 2\<rparr>,
              [Frame 4 (database_change (JObject [(''operation'', JString ''UPDATE'')])) True,
               Frame 5 (database_change (JObject [(''operation'', JString ''UPDATE'')])) True],
              [LogError ''Error processing notification'' (JSONDecodeError ''Expecting value''),
               LogInfo ''Database change detected'' (JString ''UPDATE'')])"
proof -
  let ?m = "\<lparr>active_connections = [4, 5], connection_count = 2\<rparr>"
  have bad: "malformed sample_loads ''not json''"
    by (simp add: malformed_def sample_loads_def update_text_def)
  have bad2: "malformed sample_loads [CHR 0x7B, CHR 0x7D]"
    by (simp add: malformed_def sample_loads_def update_text_def)
  have good: "sample_loads update_text = Inr (JObject [(''operation'', JString ''UPDATE'')])
      \<and> subscript (JObject [(''operation'', JString ''UPDATE'')]) ''operation'' = Inr (JString ''UPDATE'')"
    by (simp add: sample_loads_def)
  note t = malformed_payload_is_isolated
    [of sample_loads "[]" "''not json''" ?m "[]" "''not json''" update_text]
  have first: "handle_notification sample_loads [] ''not json'' ?m
       = Inr (?m, [], [LogError ''Error processing notification'' (JSONDecodeError ''Expecting value'')])"
    by (simp add: handle_notification_def notification_body_def sample_loads_def update_text_def)
  obtain e where h: "process_notifications sample_loads [(''not json'', []), (update_text, [])] ?m
       = Inr (fst (broadcast_json [] (database_change (JObject [(''operation'', JString ''UPDATE'')])) ?m),
              snd (broadcast_json [] (database_change (JObject [(''operation'', JString ''UPDATE'')])) ?m),
              [LogError ''Error processing notification'' e,
               LogInfo ''Database change detected'' (JString ''UPDATE'')])"
    using t bad good by blast
  have direct: "process_notifications sample_loads [(''not json'', []), (update_text, [])] ?m
       = Inr (?m,
              [Frame 4 (database_change (JObject [(''operation'', JString ''UPDATE'')])) True,
               Frame 5 (database_change (JObject [(''operation'', JString ''UPDATE'')])) True],
              [LogError ''Error processing notification'' (JSONDecodeError ''Expecting value''),
               LogInfo ''Database change detected'' (JString ''UPDATE'')])"
    by (simp add: handle_notification_def notification_body_def sample_loads_def update_text_def
          broadcast_json_def)
  have e: "e = JSONDecodeError ''Expecting value''"
    using h direct by simp
  have run: "process_notifications sample_loads [(''not json'', []), (update_text, [])] ?m
       = Inr (?m,
              [Frame 4 (database_change (JObject [(''operation'', JString ''UPDATE'')])) True,
               Frame 5 (database_change (JObject [(''operation'', JString ''UPDATE'')])) True],
              [LogError ''Error processing notification'' (JSONDecodeError ''Expecting value''),
               LogInfo ''Database change detected'' (JString ''UPDATE'')])"
    using h e by (simp add: broadcast_json_def)
  have second: "handle_notification sample_loads [] [CHR 0x7B, CHR 0x7D] ?m
       = Inr (?m, [], [LogError ''Error processing notification'' (KeyError ''operation'')])"
    by (simp add: handle_notification_def notification_body_def sample_loads_def update_text_def)
  show ?thesis
    using bad bad2 good run second by simp
qed

section \<open>Properties of startup\<close>

lemma initialize_pool_fails:
  "create_pool pg (database_url self) = Inl e \<Longrightarrow> initialize pg self = Inl e"
  by (simp add: initialize_def)

lemma initialize_connect_fails:
  "create_pool pg (database_url self) = Inr p \<Longrightarrow> connect_store pg (database_url self) = Inl e \<Longrightarrow>
   initialize pg self = Inl e"
  by (simp add: initialize_def setup_notification_listener_def)

lemma initialize_add_listener_fails:
  "create_pool pg (database_url self) = Inr p \<Longrightarrow> connect_store pg (database_url self) = Inr c \<Longrightarrow>
   add_listener pg c ''order_changes'' = Inl e \<Longrightarrow> initialize pg self = Inl e"
  by (simp add: initialize_def setup_notification_listener_def)

lemma initialize_succeeds:
  "initialize pg self = Inr db \<Longrightarrow>
   \<exists>p c. create_pool pg (database_url self) = Inr p
        \<and> connect_store pg (database_url self) = Inr c
        \<and> add_listener pg c ''order_changes'' = Inr ()
        \<and> db = self\<lparr>pool := Some p, listener_connection := Some c\<rparr>"
  by (auto simp add: initialize_def setup_notification_listener_def split: sum.splits)

text \<open>
  Claim C7. When creating the connection pool raises, or opening the listener connection
  raises, or add_listener raises, Database.initialize ends in that same exception, and so
  does the startup part of lifespan: its yield is not reached. Conversely the yield is
  reached only when all three calls have returned.
\<close>

theorem startup_failure_is_fatal:
  "(create_pool pg (database_url self) = Inl e \<longrightarrow> initialize pg self = Inl e)
   \<and> (create_pool pg (database_url self) = Inr p
        \<and> connect_store pg (database_url self) = Inl e \<longrightarrow> initialize pg self = Inl e)
   \<and> (create_pool pg (database_url self) = Inr p
        \<and> connect_store pg (database_url self) = Inr c
        \<and> add_listener pg c ''order_changes'' = Inl e \<longrightarrow> initialize pg self = Inl e)
   \<and> (url \<noteq> [] \<and> initialize pg (new_Database url) = Inl e \<longrightarrow>
        lifespan_startup pg (Some url) = Inl e)
   \<and> (lifespan_startup pg database_url_env = Inr db \<longrightarrow>
        (\<exists>url p' c'. database_url_env = Some url
           \<and> create_pool pg url = Inr p'
           \<and> connect_store pg url = Inr c'
           \<and> add_listener pg c' ''order_changes'' = Inr ()))"
proof (intro conjI impI)
  assume "lifespan_startup pg database_url_env = Inr db"
  then obtain url where url: "database_url_env = Some url"
    and init: "initialize pg (new_Database url) = Inr db"
    by (auto simp add: lifespan_startup_def split: option.splits if_splits)
  show "\<exists>url p' c'. database_url_env = Some url
           \<and> create_pool pg url = Inr p'
           \<and> connect_store pg url = Inr c'
           \<and> add_listener pg c' ''order_changes'' = Inr ()"
    using url initialize_succeeds [OF init] by (auto simp add: new_Database_def)
qed (auto simp add: initialize_pool_fails initialize_connect_fails initialize_add_listener_fails
       lifespan_startup_def)

theorem startup_failure_is_fatal_witness:
  "lifespan_startup
     \<lparr>create_pool = (\<lambda>url. Inl (StoreError ''connection refused'')),
      connect_store = (\<lambda>url. Inr 1),
      add_listener = (\<lambda>c channel. Inr ())\<rparr> (Some ''postgresql://db'')
     = Inl (StoreError ''connection refused'')
   \<and> lifespan_startup
     \<lparr>create_pool = (\<lambda>url. Inr 0),
      connect_store = (\<lambda>url. Inl (StoreError ''connection refused'')),
      add_listener = (\<lambda>c channel. Inr ())\<rparr> (Some ''postgresql://db'')
     = Inl (StoreError ''connection refused'')
   \<and> lifespan_startup
     \<lparr>create_pool = (\<lambda>url. Inr 0),
      connect_store = (\<lambda>url. Inr 1),
      add_listener = (\<lambda>c channel. Inl (StoreError ''cannot listen''))\<rparr> (Some ''postgresql://db'')
     = Inl (StoreError ''cannot listen'')
   \<and> lifespan_startup
     \<lparr>create_pool = (\<lambda>url. Inr 0),
      connect_store = (\<lambda>url. Inr 1),
      add_listener = (\<lambda>c channel. Inr ())\<rparr> (Some ''postgresql://db'')
     = Inr \<lparr>database_url = ''postgresql://db'', pool = Some 0, listener_connection = Some 1\<rparr>"
proof -
  let ?url = "''postgresql://db''"
  let ?pg1 = "\<lparr>create_pool = (\<lambda>url. Inl (StoreError ''connection refused'')),
      connect_store = (\<lambda>url. Inr 1),
      add_listener = (\<lambda>c channel. Inr ())\<rparr>"
  let ?pg2 = "\<lparr>create_pool = (\<lambda>url. Inr 0),
      connect_store = (\<lambda>url. Inl (StoreError ''connection refused'')),
      add_listener = (\<lambda>c channel. Inr ())\<rparr>"
  let ?pg3 = "\<lparr>create_pool = (\<lambda>url. Inr 0),
      connect_store = (\<lambda>url. Inr 1),
      add_listener = (\<lambda>c channel. Inl (StoreError ''cannot listen''))\<rparr>"
  let ?pg4 = "\<lparr>create_pool = (\<lambda>url. Inr 0),
      connect_store = (\<lambda>url. Inr 1),
      add_listener = (\<lambda>c channel. Inr ())\<rparr>"
  have a: "lifespan_startup ?pg1 (Some ?url) = Inl (StoreError ''connection refused'')"
    using startup_failure_is_fatal
      [of ?pg1 "new_Database ?url" "StoreError ''connection refused''" 0 1 ?url "Some ?url"]
    by (simp add: new_Database_def)
  have b: "lifespan_startup ?pg2 (Some ?url) = Inl (StoreError ''connection refused'')"
    using startup_failure_is_fatal
      [of ?pg2 "new_Database ?url" "StoreError ''connection refused''" 0 1 ?url "Some ?url"]
    by (simp add: new_Database_def)
  have c: "lifespan_startup ?pg3 (Some ?url) = Inl (StoreError ''cannot listen'')"
    using startup_failure_is_fatal
      [of ?pg3 "new_Database ?url" "StoreError ''cannot listen''" 0 1 ?url "Some ?url"]
    by (simp add: new_Database_def)
  have d: "lifespan_startup ?pg4 (Some ?url)
     = Inr \<lparr>database_url = ?url, pool = Some 0, listener_connection = Some 1\<rparr>"
    by (simp add: lifespan_startup_def initialize_def setup_notification_listener_def
          new_Database_def)
  show ?thesis
    using a b c d by simp
qed

text \<open>
  Claim C9. models.py binds DatabaseChangE and no DatabaseChange; line 7 of database.py
  asks for DatabaseChange, so importing database raises ImportError, importing main (which
  imports database) raises it too, and the application does not start, whatever the store
  and the environment are.
\<close>

theorem database_import_fails:
  "''DatabaseChange'' \<notin> set models_namespace
   \<and> ''DatabaseChangE'' \<in> set models_namespace
   \<and> import_database = Inl (ImportError ''cannot import name DatabaseChange from models'')
   \<and> import_main = Inl (ImportError ''cannot import name DatabaseChange from models'')
   \<and> start_application pg database_url_env
       = Inl (ImportError ''cannot import name DatabaseChange from models'')"
  by (simp add: models_namespace_def database_imports_def import_database_def import_main_def
        start_application_def)

section \<open>Properties of the update path\<close>

text \<open>
  Claim C10. For every order id, store and store state, update_order with an OrderUpdate
  whose three fields are None returns None, issues no query and leaves the store's state
  unchanged; the PUT handler answers it with HTTPException 404 "Order not found".
\<close>

theorem empty_update_is_not_found:
  "update_order w order_id \<lparr>customer_name = None, product_name = None, status = None\<rparr> st
     = (Inr None, st, [])
   \<and> put_order w n \<lparr>customer_name = None, product_name = None, status = None\<rparr> st
     = (Inl (HTTPException 404 ''Order not found''), st, [])"
  by (simp add: update_order_def put_order_def add_field_def)


text \<open>
  With the order in the store, found by its id, the PUT handler answers the update that
  names no field with 404.
\<close>

lemma existing_order_empty_update:
  "get_order_by_id sample_world (JInt 1) [sample_row]
     = (Inr (Some sample_row), [sample_row],
        [(''SELECT id, customer_name, product_name, status, updated_at FROM orders WHERE id = $1'',
          [PId (JInt 1)])])
   \<and> put_order sample_world 1 \<lparr>customer_name = None, product_name = None, status = None\<rparr>
        [sample_row]
     = (Inl (HTTPException 404 ''Order not found''), [sample_row], [])"
  by (simp add: get_order_by_id_def put_order_def update_order_def add_field_def
        sample_world_def sample_row_def)

section \<open>Properties of the outbound messages\<close>

lemma answer_sent:
  "snd (answer raised websocket prefix outcome m) = [] \<or>
   (\<exists>text. snd (answer raised websocket prefix outcome m)
             = [Frame websocket (error_message text) (\<not> raised)])"
proof (cases outcome)
  case (Pair r st')
  then show ?thesis
    by (cases r) (auto simp add: answer_def send_json_personal_def)
qed

lemma answer_rejected:
  "answer raised websocket prefix (Inl e, st') m
     = ((if raised then disconnect websocket m else m, st'),
        [Frame websocket (error_message (prefix @ str_exn e)) (\<not> raised)])"
  by (simp add: answer_def send_json_personal_def)

lemma answer_cause:
  "snd (answer raised websocket prefix outcome m) \<noteq> [] \<Longrightarrow> \<exists>e st'. outcome = (Inl e, st')"
proof (cases outcome)
  case (Pair r st')
  assume "snd (answer raised websocket prefix outcome m) \<noteq> []"
  then show ?thesis
    using Pair by (cases r) (simp_all add: answer_def)
qed

lemma handle_message_cases:
  assumes "handle_message w raised websocket data (m, st) = Inr (s', sent)"
  obtains (create) kvs where "data = JObject kvs"
      "map_of kvs ''type'' = Some (JString ''create_order'')"
      "(s', sent) = answer raised websocket ''Failed to create order: '' (create_request w kvs st) m"
  | (update) kvs where "data = JObject kvs"
      "map_of kvs ''type'' = Some (JString ''update_order'')"
      "(s', sent) = answer raised websocket ''Failed to update order: '' (update_request w kvs st) m"
  | (delete) kvs where "data = JObject kvs"
      "map_of kvs ''type'' = Some (JString ''delete_order'')"
      "(s', sent) = answer raised websocket ''Failed to delete order: '' (delete_request w kvs st) m"
  | (other) "sent = []"
proof -
  from assms obtain kvs where data: "data = JObject kvs"
    by (cases data) (simp_all add: handle_message_def)
  consider "map_of kvs ''type'' = Some (JString ''create_order'')"
    | "map_of kvs ''type'' \<noteq> Some (JString ''create_order'')"
      "map_of kvs ''type'' = Some (JString ''update_order'')"
    | "map_of kvs ''type'' \<noteq> Some (JString ''create_order'')"
      "map_of kvs ''type'' \<noteq> Some (JString ''update_order'')"
      "map_of kvs ''type'' = Some (JString ''delete_order'')"
    | "map_of kvs ''type'' \<noteq> Some (JString ''create_order'')"
      "map_of kvs ''type'' \<noteq> Some (JString ''update_order'')"
      "map_of kvs ''type'' \<noteq> Some (JString ''delete_order'')"
    by blast
  then show ?thesis
  proof cases
    case 1
    then show ?thesis
      using assms data by (intro create [of kvs]) (auto simp add: handle_message_def)
  next
    case 2
    then show ?thesis
      using assms data by (intro update [of kvs]) (auto simp add: handle_message_def)
  next
    case 3
    then show ?thesis
      using assms data by (intro delete [of kvs]) (auto simp add: handle_message_def)
  next
    case 4
    then show ?thesis
      using assms data by (intro other) (auto simp add: handle_message_def)
  qed
qed

lemma handle_message_sent:
  assumes "handle_message w raised websocket data (m, st) = Inr (s', sent)"
  shows "sent = [] \<or> (\<exists>text. sent = [Frame websocket (error_message text) (\<not> raised)])"
  using assms
proof (cases rule: handle_message_cases)
  case (create kvs)
  then have "sent = snd (answer raised websocket ''Failed to create order: ''
                          (create_request w kvs st) m)"
    by (metis snd_conv)
  then show ?thesis
    using answer_sent by simp
next
  case (update kvs)
  then have "sent = snd (answer raised websocket ''Failed to update order: ''
                          (update_request w kvs st) m)"
    by (metis snd_conv)
  then show ?thesis
    using answer_sent by simp
next
  case (delete kvs)
  then have "sent = snd (answer raised websocket ''Failed to delete order: ''
                          (delete_request w kvs st) m)"
    by (metis snd_conv)
  then show ?thesis
    using answer_sent by simp
next
  case other
  then show ?thesis by simp
qed

lemma handle_message_cause:
  assumes "handle_message w raised websocket data (m, st) = Inr (s', sent)"
    and "sent \<noteq> []"
  shows "\<exists>kvs e st'. data = JObject kvs
           \<and> ((map_of kvs ''type'' = Some (JString ''create_order'')
                  \<and> create_request w kvs st = (Inl e, st'))
               \<or> (map_of kvs ''type'' = Some (JString ''update_order'')
                  \<and> update_request w kvs st = (Inl e, st'))
               \<or> (map_of kvs ''type'' = Some (JString ''delete_order'')
                  \<and> delete_request w kvs st = (Inl e, st')))"
  using assms(1)
proof (cases rule: handle_message_cases)
  case (create kvs)
  then have "snd (answer raised websocket ''Failed to create order: ''
                          (create_request w kvs st) m) \<noteq> []"
    using assms(2) by (metis snd_conv)
  then show ?thesis
    using create(1,2) answer_cause by blast
next
  case (update kvs)
  then have "snd (answer raised websocket ''Failed to update order: ''
                          (update_request w kvs st) m) \<noteq> []"
    using assms(2) by (metis snd_conv)
  then show ?thesis
    using update(1,2) answer_cause by blast
next
  case (delete kvs)
  then have "snd (answer raised websocket ''Failed to delete order: ''
                          (delete_request w kvs st) m) \<noteq> []"
    using assms(2) by (metis snd_conv)
  then show ?thesis
    using delete(1,2) answer_cause by blast
next
  case other
  then show ?thesis
    using assms(2) by simp
qed

lemma receive_loop_sent:
  "f \<in> set (snd (receive_loop w websocket events s)) \<Longrightarrow>
   target f = websocket \<and> (\<exists>text. message f = error_message text)"
proof (induction w websocket events s rule: receive_loop.induct)
  case (1 w websocket s)
  then show ?case by simp
next
  case (2 w websocket e raised rest s)
  then show ?case by simp
next
  case (3 w websocket data raised rest s)
  show ?case
  proof (cases "handle_message w raised websocket data s")
    case (Inl e)
    then show ?thesis
      using "3.prems" by simp
  next
    case (Inr r)
    then obtain s' sent where hm: "handle_message w raised websocket data s = Inr (s', sent)"
      by (cases r) simp
    have "handle_message w raised websocket data (fst s, snd s) = Inr (s', sent)"
      using hm by simp
    then have here: "sent = [] \<or> (\<exists>text. sent = [Frame websocket (error_message text) (\<not> raised)])"
      by (rule handle_message_sent)
    have unfold: "snd (receive_loop w websocket ((Received data, raised) # rest) s)
            = sent @ snd (receive_loop w websocket rest s')"
      by (simp add: hm split_beta)
    have "f \<in> set sent \<or> f \<in> set (snd (receive_loop w websocket rest s'))"
      using "3.prems" unfolding unfold by simp
    then show ?thesis
    proof
      assume "f \<in> set sent"
      then show ?thesis
        using here by auto
    next
      assume "f \<in> set (snd (receive_loop w websocket rest s'))"
      then show ?thesis
        by (rule "3.IH" [OF hm refl])
    qed
  qed
qed

lemma receive_loop_not_object:
  "\<forall>kvs. data \<noteq> JObject kvs \<Longrightarrow>
   receive_loop w websocket ((Received data, raised) # rest) (m, st)
     = ((disconnect websocket m, st), [])"
  by (cases data) (simp_all add: handle_message_def)

lemma notification_sent:
  assumes "handle_notification loads outs payload m = Inr (m', sent, logged)"
    and "f \<in> set sent"
  shows "\<exists>change_data. loads payload = Inr change_data \<and> message f = database_change change_data"
proof (cases "loads payload")
  case (Inl e)
  then show ?thesis
    using assms by (simp add: handle_notification_def notification_body_def)
next
  case (Inr change_data)
  show ?thesis
  proof (cases "subscript change_data ''operation''")
    case (Inl e)
    then show ?thesis
      using assms Inr by (simp add: handle_notification_def notification_body_def)
  next
    case (Inr operation)
    have "sent = snd (broadcast_json outs (database_change change_data) m)"
      using assms(1) Inr \<open>loads payload = Inr change_data\<close>
      by (simp add: handle_notification_wellformed)
    then have "message f = database_change change_data"
      using assms(2)
      by (auto simp add: broadcast_json_def split_beta Let_def split: if_splits
            dest: send_all_messages)
    then show ?thesis
      using \<open>loads payload = Inr change_data\<close> by simp
  qed
qed

lemma send_initial_data_sent:
  "snd (send_initial_data raised orders websocket m)
     = (case dumps_rows orders of
          Inl e \<Rightarrow> []
        | Inr records \<Rightarrow> [Frame websocket (initial_data records) (\<not> raised)])"
  by (simp add: send_initial_data_def send_json_personal_def split: sum.splits)

lemma endpoint_unfolded:
  assumes "websocket_endpoint w accept raised0 websocket events (m, st) = Inr (s', sent)"
    and "get_all_orders w st = (r, st1, issued)"
  shows "sent = (case r of
                   Inl e \<Rightarrow> []
                 | Inr orders \<Rightarrow>
                     snd (send_initial_data raised0 orders websocket (register websocket m))
                       @ snd (receive_loop w websocket events
                           (fst (send_initial_data raised0 orders websocket
                                   (register websocket m)), st1)))"
  using assms
  by (cases accept; cases r)
     (auto simp add: websocket_endpoint_def connect_def split_beta Let_def)

lemma endpoint_sent:
  assumes ep: "websocket_endpoint w accept raised0 websocket events (m, st) = Inr (s', sent)"
  shows "(\<forall>f \<in> set sent. target f = websocket
            \<and> ((\<exists>records. message f = initial_data records)
                 \<or> (\<exists>text. message f = error_message text)))
         \<and> (\<forall>orders st1 issued records.
               get_all_orders w st = (Inr orders, st1, issued) \<and> dumps_rows orders = Inr records
               \<longrightarrow>
               (\<exists>rest. sent = Frame websocket (initial_data records) (\<not> raised0) # rest
                  \<and> (\<forall>f \<in> set rest. \<exists>text. message f = error_message text)))"
proof -
  obtain r st1 issued where g: "get_all_orders w st = (r, st1, issued)"
    by (cases "get_all_orders w st") auto
  note sent = endpoint_unfolded [OF ep g]
  show ?thesis
  proof (cases r)
    case (Inl e)
    then show ?thesis
      using sent g by simp
  next
    case (Inr orders)
    let ?rest = "snd (receive_loop w websocket events
                      (fst (send_initial_data raised0 orders websocket (register websocket m)),
                       st1))"
    have rest: "\<forall>f \<in> set ?rest. target f = websocket \<and> (\<exists>text. message f = error_message text)"
      using receive_loop_sent by blast
    show ?thesis
    proof (cases "dumps_rows orders")
      case (Inl e)
      have "sent = ?rest"
        using sent Inr Inl by (simp add: send_initial_data_sent)
      then show ?thesis
        using rest g Inr Inl by auto
    next
      case (Inr records)
      have s: "sent = Frame websocket (initial_data records) (\<not> raised0) # ?rest"
        using sent \<open>r = Inr orders\<close> Inr by (simp add: send_initial_data_sent)
      have first: "\<forall>f \<in> set sent. target f = websocket
            \<and> ((\<exists>records. message f = initial_data records)
                 \<or> (\<exists>text. message f = error_message text))"
        using s rest by auto
      have second: "\<exists>rest. sent = Frame websocket (initial_data records) (\<not> raised0) # rest
                  \<and> (\<forall>f \<in> set rest. \<exists>text. message f = error_message text)"
        using s rest by blast
      show ?thesis
        using first second g \<open>r = Inr orders\<close> Inr by simp
    qed
  qed
qed

lemma handle_message_rejected:
  "map_of kvs ''type'' = Some (JString ''create_order'') \<Longrightarrow>
   create_request w kvs st = (Inl e, st') \<Longrightarrow>
   handle_message w raised websocket (JObject kvs) (m, st)
     = Inr ((if raised then disconnect websocket m else m, st'),
            [Frame websocket (error_message (''Failed to create order: '' @ str_exn e)) (\<not> raised)])"
  "map_of kvs ''type'' = Some (JString ''update_order'') \<Longrightarrow>
   update_request w kvs st = (Inl e, st') \<Longrightarrow>
   handle_message w raised websocket (JObject kvs) (m, st)
     = Inr ((if raised then disconnect websocket m else m, st'),
            [Frame websocket (error_message (''Failed to update order: '' @ str_exn e)) (\<not> raised)])"
  "map_of kvs ''type'' = Some (JString ''delete_order'') \<Longrightarrow>
   delete_request w kvs st = (Inl e, st') \<Longrightarrow>
   handle_message w raised websocket (JObject kvs) (m, st)
     = Inr ((if raised then disconnect websocket m else m, st'),
            [Frame websocket (error_message (''Failed to delete order: '' @ str_exn e)) (\<not> raised)])"
  by (simp_all add: handle_message_def answer_rejected)

text \<open>
  Two requests that are turned down without an error object. One that is not a JSON
  object ends the loop: the connection is unregistered, and the only message it was sent
  is the initial data. An update of an order that is not in the store is handled without
  an exception and answered with nothing.
\<close>

theorem push_messages_have_three_shapes_counterexample:
  "websocket_endpoint sample_world (Inr ()) False 6 [(Received (JArray [JInt 7]), False)]
       (\<lparr>active_connections = [4, 5], connection_count = 2\<rparr>, [])
     = Inr ((\<lparr>active_connections = [4, 5], connection_count = 2\<rparr>, []),
            [Frame 6 (JObject [(''type'', JString ''initial_data''), (''data'', JArray [])]) True])
   \<and> websocket_endpoint sample_world (Inr ()) False 6
       [(Received (JObject [(''type'', JString ''update_order''), (''id'', JInt 9),
                            (''updates'', JObject [(''status'', JString ''shipped'')])]), False)]
       (\<lparr>active_connections = [4, 5], connection_count = 2\<rparr>, [])
     = Inr ((\<lparr>active_connections = [4, 5, 6], connection_count = 3\<rparr>, []),
            [Frame 6 (JObject [(''type'', JString ''initial_data''), (''data'', JArray [])]) True])"
  by (simp add: websocket_endpoint_def connect_def register_def disconnect_def
        get_all_orders_def send_initial_data_def initial_data_def send_json_personal_def
        handle_message_def answer_def update_request_def update_order_def add_field_def
        dict_get_def sample_world_def split_beta Let_def)

text \<open>
  With a row in the store the initial data does not serialise, for the datetime under
  \<open>updated_at\<close>: nothing is sent, and the connection that has just attached is unregistered.
\<close>

lemma initial_data_with_rows_is_not_sent:
  "dumps_rows [sample_row]
     = Inl (TypeError ''Object of type datetime is not JSON serializable'')
   \<and> websocket_endpoint sample_world (Inr ()) False 6 []
       (\<lparr>active_connections = [4, 5], connection_count = 2\<rparr>, [sample_row])
     = Inr ((\<lparr>active_connections = [4, 5], connection_count = 2\<rparr>, [sample_row]), [])"
  by (simp add: websocket_endpoint_def connect_def register_def disconnect_def
        get_all_orders_def send_initial_data_def sample_world_def sample_row_def
        split_beta Let_def)

text \<open>
  Claim C8, amended. Every message the notification handler sends is the object with
  "type" "database_change" and, under "data", the decoded payload. Every message the
  WebSocket endpoint sends goes to its own connection and is the object with "type"
  "initial_data" and a list under "data", or the object with "type" "error" and a text
  under "message"; when the orders were read and serialise, the first message is the
  initial data with them and all later ones are error objects. A create, update or
  delete request whose handling raises is answered with one error object that carries the
  exception's text. No other request is answered: a message follows a request only when
  its handling raised, and a request that is not a JSON object ends the loop with a
  disconnect and no message.
\<close>

theorem push_messages_have_three_shapes:
  "(handle_notification loads outs payload m = Inr (m', sent, logged) \<longrightarrow>
      (\<forall>f \<in> set sent. \<exists>change_data.
          loads payload = Inr change_data
          \<and> message f = JObject [(''type'', JString ''database_change''), (''data'', change_data)]))
   \<and> (websocket_endpoint w accept raised0 websocket events (m, st) = Inr (s', sent') \<longrightarrow>
        (\<forall>f \<in> set sent'. target f = websocket
            \<and> ((\<exists>records. message f
                    = JObject [(''type'', JString ''initial_data''),
                               (''data'', JArray (map JObject records))])
                 \<or> (\<exists>text. message f
                    = JObject [(''type'', JString ''error''), (''message'', JString text)])))
        \<and> (\<forall>orders st1 issued records.
              get_all_orders w st = (Inr orders, st1, issued) \<and> dumps_rows orders = Inr records
              \<longrightarrow>
              (\<exists>rest. sent' = Frame websocket
                                 (JObject [(''type'', JString ''initial_data''),
                                           (''data'', JArray (map JObject records))])
                                 (\<not> raised0) # rest
                 \<and> (\<forall>f \<in> set rest. \<exists>text. message f
                        = JObject [(''type'', JString ''error''), (''message'', JString text)]))))
   \<and> (map_of kvs ''type'' = Some (JString ''create_order'')
        \<and> create_request w kvs st = (Inl e, st') \<longrightarrow>
        handle_message w raised websocket (JObject kvs) (m, st)
          = Inr ((if raised then disconnect websocket m else m, st'),
                 [Frame websocket
                    (JObject [(''type'', JString ''error''),
                              (''message'', JString (''Failed to create order: '' @ str_exn e))])
                    (\<not> raised)]))
   \<and> (map_of kvs ''type'' = Some (JString ''update_order'')
        \<and> update_request w kvs st = (Inl e, st') \<longrightarrow>
        handle_message w raised websocket (JObject kvs) (m, st)
          = Inr ((if raised then disconnect websocket m else m, st'),
                 [Frame websocket
                    (JObject [(''type'', JString ''error''),
                              (''message'', JString (''Failed to update order: '' @ str_exn e))])
                    (\<not> raised)]))
   \<and> (map_of kvs ''type'' = Some (JString ''delete_order'')
        \<and> delete_request w kvs st = (Inl e, st') \<longrightarrow>
        handle_message w raised websocket (JObject kvs) (m, st)
          = Inr ((if raised then disconnect websocket m else m, st'),
                 [Frame websocket
                    (JObject [(''type'', JString ''error''),
                              (''message'', JString (''Failed to delete order: '' @ str_exn e))])
                    (\<not> raised)]))
   \<and> (handle_message w raised websocket data (m, st) = Inr (s'', sent'') \<and> sent'' \<noteq> [] \<longrightarrow>
        (\<exists>kvs' e' st''. data = JObject kvs'
           \<and> ((map_of kvs' ''type'' = Some (JString ''create_order'')
                  \<and> create_request w kvs' st = (Inl e', st''))
               \<or> (map_of kvs' ''type'' = Some (JString ''update_order'')
                  \<and> update_request w kvs' st = (Inl e', st''))
               \<or> (map_of kvs' ''type'' = Some (JString ''delete_order'')
                  \<and> delete_request w kvs' st = (Inl e', st'')))))
   \<and> ((\<forall>kvs'. data \<noteq> JObject kvs') \<longrightarrow>
        receive_loop w websocket ((Received data, raised) # rest') (m, st)
          = ((disconnect websocket m, st), []))"
proof (intro conjI impI)
  assume "handle_notification loads outs payload m = Inr (m', sent, logged)"
  then show "\<forall>f \<in> set sent. \<exists>change_data.
          loads payload = Inr change_data
          \<and> message f = JObject [(''type'', JString ''database_change''), (''data'', change_data)]"
    using notification_sent [unfolded database_change_def] by blast
next
  assume ep: "websocket_endpoint w accept raised0 websocket events (m, st) = Inr (s', sent')"
  note shapes = endpoint_sent [OF ep, unfolded initial_data_def error_message_def]
  show "\<forall>f \<in> set sent'. target f = websocket
            \<and> ((\<exists>records. message f
                    = JObject [(''type'', JString ''initial_data''),
                               (''data'', JArray (map JObject records))])
                 \<or> (\<exists>text. message f
                    = JObject [(''type'', JString ''error''), (''message'', JString text)]))"
    using shapes by (rule conjunct1)
  show "\<forall>orders st1 issued records.
              get_all_orders w st = (Inr orders, st1, issued) \<and> dumps_rows orders = Inr records
              \<longrightarrow>
              (\<exists>rest. sent' = Frame websocket
                                 (JObject [(''type'', JString ''initial_data''),
                                           (''data'', JArray (map JObject records))])
                                 (\<not> raised0) # rest
                 \<and> (\<forall>f \<in> set rest. \<exists>text. message f
                        = JObject [(''type'', JString ''error''), (''message'', JString text)]))"
    using shapes by (rule conjunct2)
next
  assume both: "map_of kvs ''type'' = Some (JString ''create_order'')
        \<and> create_request w kvs st = (Inl e, st')"
  show "handle_message w raised websocket (JObject kvs) (m, st)
          = Inr ((if raised then disconnect websocket m else m, st'),
                 [Frame websocket
                    (JObject [(''type'', JString ''error''),
                              (''message'', JString (''Failed to create order: '' @ str_exn e))])
                    (\<not> raised)])"
    by (rule handle_message_rejected(1)
          [unfolded error_message_def, OF conjunct1 [OF both] conjunct2 [OF both]])
next
  assume both: "map_of kvs ''type'' = Some (JString ''update_order'')
        \<and> update_request w kvs st = (Inl e, st')"
  show "handle_message w raised websocket (JObject kvs) (m, st)
          = Inr ((if raised then disconnect websocket m else m, st'),
                 [Frame websocket
                    (JObject [(''type'', JString ''error''),
                              (''message'', JString (''Failed to update order: '' @ str_exn e))])
                    (\<not> raised)])"
    by (rule handle_message_rejected(2)
          [unfolded error_message_def, OF conjunct1 [OF both] conjunct2 [OF both]])
next
  assume both: "map_of kvs ''type'' = Some (JString ''delete_order'')
        \<and> delete_request w kvs st = (Inl e, st')"
  show "handle_message w raised websocket (JObject kvs) (m, st)
          = Inr ((if raised then disconnect websocket m else m, st'),
                 [Frame websocket
                    (JObject [(''type'', JString ''error''),
                              (''message'', JString (''Failed to delete order: '' @ str_exn e))])
                    (\<not> raised)])"
    by (rule handle_message_rejected(3)
          [unfolded error_message_def, OF conjunct1 [OF both] conjunct2 [OF both]])
next
  assume "handle_message w raised websocket data (m, st) = Inr (s'', sent'') \<and> sent'' \<noteq> []"
  then show "\<exists>kvs' e' st''. data = JObject kvs'
           \<and> ((map_of kvs' ''type'' = Some (JString ''create_order'')
                  \<and> create_request w kvs' st = (Inl e', st''))
               \<or> (map_of kvs' ''type'' = Some (JString ''update_order'')
                  \<and> update_request w kvs' st = (Inl e', st''))
               \<or> (map_of kvs' ''type'' = Some (JString ''delete_order'')
                  \<and> delete_request w kvs' st = (Inl e', st'')))"
    using handle_message_cause [of w raised websocket data m st s'' sent''] by blast
next
  assume "\<forall>kvs'. data \<noteq> JObject kvs'"
  then show "receive_loop w websocket ((Received data, raised) # rest') (m, st)
          = ((disconnect websocket m, st), [])"
    by (rule receive_loop_not_object)
qed

theorem push_messages_have_three_shapes_witness:
  "handle_notification sample_loads [] update_text \<lparr>active_connections = [4, 5], connection_count = 2\<rparr>
     = Inr (\<lparr>active_connections = [4, 5], connection_count = 2\<rparr>,
            [Frame 4 (JObject [(''type'', JString ''database_change''),
                               (''data'', JObject [(''operation'', JString ''UPDATE'')])]) True,
             Frame 5 (JObject [(''type'', JString ''database_change''),
                               (''data'', JObject [(''operation'', JString ''UPDATE'')])]) True],
            [LogInfo ''Database change detected'' (JString ''UPDATE'')])
   \<and> sample_loads update_text = Inr (JObject [(''operation'', JString ''UPDATE'')])
   \<and> get_all_orders sample_world []
       = (Inr [], [],
          [(''SELECT id, customer_name, product_name, status, updated_at FROM orders ORDER BY updated_at DESC'', [])])
   \<and> dumps_rows [] = Inr []
   \<and> websocket_endpoint sample_world (Inr ()) False 6
        [(Received (JObject [(''type'', JString ''create_order'')]), False)]
        (\<lparr>active_connections = [4, 5], connection_count = 2\<rparr>, [])
     = Inr ((\<lparr>active_connections = [4, 5, 6], connection_count = 3\<rparr>, []),
            [Frame 6 (JObject [(''type'', JString ''initial_data''), (''data'', JArray [])]) True,
             Frame 6 (JObject [(''type'', JString ''error''),
                               (''message'', JString
                                  ''Failed to create order: customer_name: Field required'')]) True])
   \<and> create_request sample_world [(''type'', JString ''create_order'')] []
       = (Inl (ValidationError ''customer_name: Field required''), [])
   \<and> handle_message sample_world False 6 (JObject [(''type'', JString ''create_order'')])
        (\<lparr>active_connections = [4, 5, 6], connection_count = 3\<rparr>, [])
     = Inr ((\<lparr>active_connections = [4, 5, 6], connection_count = 3\<rparr>, []),
            [Frame 6 (JObject [(''type'', JString ''error''),
                               (''message'', JString
                                  ''Failed to create order: customer_name: Field required'')]) True])
   \<and> update_request sample_world
        [(''type'', JString ''update_order''), (''id'', JInt 3),
         (''updates'', JObject [(''status'', JString ''lost'')])] []
       = (Inl (ValidationError ''status: Input should be pending, shipped or delivered''), [])
   \<and> handle_message sample_world False 6
        (JObject [(''type'', JString ''update_order''), (''id'', JInt 3),
                  (''updates'', JObject [(''status'', JString ''lost'')])])
        (\<lparr>active_connections = [4, 5, 6], connection_count = 3\<rparr>, [])
     = Inr ((\<lparr>active_connections = [4, 5, 6], connection_count = 3\<rparr>, []),
            [Frame 6 (JObject [(''type'', JString ''error''),
                               (''message'', JString
                                  ''Failed to update order: status: Input should be pending, shipped or delivered'')]) True])
   \<and> delete_request sample_world [(''type'', JString ''delete_order''), (''id'', JString ''x'')] []
       = (Inl (StoreError ''invalid input for query argument''), [])
   \<and> handle_message sample_world False 6
        (JObject [(''type'', JString ''delete_order''), (''id'', JString ''x'')])
        (\<lparr>active_connections = [4, 5, 6], connection_count = 3\<rparr>, [])
     = Inr ((\<lparr>active_connections = [4, 5, 6], connection_count = 3\<rparr>, []),
            [Frame 6 (JObject [(''type'', JString ''error''),
                               (''message'', JString
                                  ''Failed to delete order: invalid input for query argument'')]) True])
   \<and> (\<forall>kvs'. JArray [JInt 7] \<noteq> JObject kvs')
   \<and> receive_loop sample_world 6 [(Received (JArray [JInt 7]), False)]
        (\<lparr>active_connections = [4, 5, 6], connection_count = 3\<rparr>, [])
     = ((\<lparr>active_connections = [4, 5], connection_count = 2\<rparr>, []), [])"
proof -
  let ?m = "\<lparr>active_connections = [4, 5], connection_count = 2\<rparr>"
  let ?m3 = "\<lparr>active_connections = [4, 5, 6], connection_count = 3\<rparr>"
  let ?create = "[(''type'', JString ''create_order'')]"
  let ?update = "[(''type'', JString ''update_order''), (''id'', JInt 3),
         (''updates'', JObject [(''status'', JString ''lost'')])]"
  let ?delete = "[(''type'', JString ''delete_order''), (''id'', JString ''x'')]"
  let ?change = "JObject [(''type'', JString ''database_change''),
                               (''data'', JObject [(''operation'', JString ''UPDATE'')])]"
  let ?sent = "[Frame 4 ?change True, Frame 5 ?change True]"
  let ?logged = "[LogInfo ''Database change detected'' (JString ''UPDATE'')]"
  let ?initial = "JObject [(''type'', JString ''initial_data''), (''data'', JArray [])]"
  let ?failed_create = "JObject [(''type'', JString ''error''),
                               (''message'', JString
                                  ''Failed to create order: customer_name: Field required'')]"
  let ?sent' = "[Frame 6 ?initial True, Frame 6 ?failed_create True]"
  let ?events = "[(Received (JObject ?create), False)]"
  have n: "handle_notification sample_loads [] update_text ?m = Inr (?m, ?sent, ?logged)"
    by (simp add: handle_notification_def notification_body_def sample_loads_def
          broadcast_json_def database_change_def)
  have g: "get_all_orders sample_world []
       = (Inr [], [],
          [(''SELECT id, customer_name, product_name, status, updated_at FROM orders ORDER BY updated_at DESC'', [])])"
    by (simp add: get_all_orders_def sample_world_def)
  have dr: "dumps_rows [] = Inr []"
    by simp
  have c: "create_request sample_world ?create []
       = (Inl (ValidationError ''customer_name: Field required''), [])"
    by (simp add: create_request_def dict_get_def sample_world_def)
  have u: "update_request sample_world ?update []
       = (Inl (ValidationError ''status: Input should be pending, shipped or delivered''), [])"
    by (simp add: update_request_def dict_get_def sample_world_def)
  have d: "delete_request sample_world ?delete []
       = (Inl (StoreError ''invalid input for query argument''), [])"
    by (simp add: delete_request_def delete_order_def dict_get_def sample_world_def)
  have ep: "websocket_endpoint sample_world (Inr ()) False 6 ?events (?m, [])
     = Inr ((?m3, []), ?sent')"
    by (simp add: websocket_endpoint_def connect_def register_def get_all_orders_def
          send_initial_data_def initial_data_def error_message_def send_json_personal_def
          handle_message_def answer_def create_request_def dict_get_def sample_world_def
          split_beta Let_def)
  have shape: "\<forall>kvs'. JArray [JInt 7] \<noteq> JObject kvs'"
    by simp
  note t = push_messages_have_three_shapes
    [of sample_loads "[]" update_text ?m ?m ?sent ?logged sample_world "Inr ()" False 6 ?events
        "[]" "(?m3, [])" ?sent']
  have "\<forall>f \<in> set ?sent. \<exists>change_data.
          sample_loads update_text = Inr change_data
          \<and> message f = JObject [(''type'', JString ''database_change''), (''data'', change_data)]"
    by (rule t [THEN conjunct1, THEN mp, OF n])
  then have decoded: "sample_loads update_text = Inr (JObject [(''operation'', JString ''UPDATE'')])"
    by simp
  have "\<exists>rest. ?sent' = Frame 6 (JObject [(''type'', JString ''initial_data''),
                                             (''data'', JArray (map JObject []))]) (\<not> False) # rest
          \<and> (\<forall>f \<in> set rest. \<exists>text. message f
                 = JObject [(''type'', JString ''error''), (''message'', JString text)])"
    using t [THEN conjunct2, THEN conjunct1, THEN mp, OF ep, THEN conjunct2] g dr by blast
  then have first: "hd ?sent' = Frame 6 ?initial True"
    by simp
  have hc: "handle_message sample_world False 6 (JObject ?create) (?m3, [])
     = Inr ((?m3, []), [Frame 6 ?failed_create True])"
    using push_messages_have_three_shapes
      [of sample_loads "[]" update_text ?m3 ?m3 "[]" "[]" sample_world "Inr ()" False 6 "[]"
          "[]" "(?m3, [])" "[]" ?create
          "ValidationError ''customer_name: Field required''" "[]" False]
      c
    by simp
  have hu: "handle_message sample_world False 6 (JObject ?update) (?m3, [])
     = Inr ((?m3, []),
            [Frame 6 (JObject [(''type'', JString ''error''),
                               (''message'', JString
                                  ''Failed to update order: status: Input should be pending, shipped or delivered'')]) True])"
    using push_messages_have_three_shapes
      [of sample_loads "[]" update_text ?m3 ?m3 "[]" "[]" sample_world "Inr ()" False 6 "[]"
          "[]" "(?m3, [])" "[]" ?update
          "ValidationError ''status: Input should be pending, shipped or delivered''" "[]" False]
      u
    by simp
  have hd: "handle_message sample_world False 6 (JObject ?delete) (?m3, [])
     = Inr ((?m3, []),
            [Frame 6 (JObject [(''type'', JString ''error''),
                               (''message'', JString
                                  ''Failed to delete order: invalid input for query argument'')]) True])"
    using push_messages_have_three_shapes
      [of sample_loads "[]" update_text ?m3 ?m3 "[]" "[]" sample_world "Inr ()" False 6 "[]"
          "[]" "(?m3, [])" "[]" ?delete
          "StoreError ''invalid input for query argument''" "[]" False]
      d
    by simp
  have drop: "receive_loop sample_world 6 [(Received (JArray [JInt 7]), False)] (?m3, [])
     = ((?m, []), [])"
    using push_messages_have_three_shapes
      [of sample_loads "[]" update_text ?m3 ?m3 "[]" "[]" sample_world "Inr ()" False 6 "[]"
          "[]" "(?m3, [])" "[]" ?create
          "ValidationError ''customer_name: Field required''" "[]" False
          "JArray [JInt 7]" "(?m3, [])" "[]" "[]"]
      shape
    by (simp add: disconnect_def)
  show ?thesis
    using n decoded g dr ep c hc u hu d hd shape drop by (intro conjI)
qed


end
